theory Spec2Isabelle
  imports Main "HOL-Library.Sublist"
begin

section \<open>Python values\<close>

text \<open>
  Python's truth test on an \<^verbatim>\<open>Optional[int]\<close>: \<^verbatim>\<open>None\<close> and \<^verbatim>\<open>0\<close> are false,
  every other integer is true (\<^verbatim>\<open>if cfg.district_code:\<close>, \<^verbatim>\<open>if hobli_code:\<close>).
\<close>

definition truthy :: "int option \<Rightarrow> bool" where
  "truthy c = (case c of None \<Rightarrow> False | Some n \<Rightarrow> n \<noteq> 0)"

section \<open>The remote hierarchy API\<close>

text \<open>
  One HTTP round trip, as the \<^verbatim>\<open>try\<close> body of \<^verbatim>\<open>api_call\<close> and as \<^verbatim>\<open>_post_json\<close>
  see it: either \<^verbatim>\<open>requests.post\<close>, \<^verbatim>\<open>raise_for_status\<close> or \<^verbatim>\<open>response.json()\<close>
  raised (an \<^verbatim>\<open>Exception\<close> with its message), or \<^verbatim>\<open>response.json()\<close> returned a value.
\<close>

datatype 'a attempt = Raised string | Json 'a

text \<open>The rows of the four endpoints (and of the property type master), with the keys the code reads.\<close>

record api_district =
  ad_districtCode :: int
  ad_districtNamee :: string
  ad_districtNamek :: string
  ad_bhoomiDistrictCode :: string

record api_taluka =
  at_talukCode :: int
  at_talukNamee :: string
  at_talukNamek :: string
  at_unit :: string

record api_hobli =
  ah_hoblicode :: int
  ah_hoblinamee :: string
  ah_hoblinamek :: string
  ah_bhoomitalukcode :: int
  ah_bhoomiDistrictCode :: int
  ah_bhoomihoblicode :: int

record api_village =
  av_villagecode :: int
  av_villagenamee :: string
  av_villagenamek :: string
  av_ulbcode :: int
  av_sroCode :: int
  av_bhoomitalukcode :: int
  av_bhoomiDistrictCode :: int
  av_bhoomivillagecode :: int
  av_isurban :: bool

record api_property_type =
  ap_propertytypeid :: int
  ap_typeNameEnglish :: string
  ap_typeNameKannada :: string

text \<open>
  The remote service. The first argument of every endpoint is the number of requests the
  program has issued before this one, so the service may answer the same request
  differently each time it is asked; the second is the code sent in the payload.
\<close>

record network =
  GetDistrictAsync :: "nat \<Rightarrow> api_district list attempt"
  GetTalukaAsync :: "nat \<Rightarrow> int \<Rightarrow> api_taluka list attempt"
  GetHobliAsync :: "nat \<Rightarrow> int \<Rightarrow> api_hobli list attempt"
  GetVillageAsync :: "nat \<Rightarrow> int \<Rightarrow> api_village list attempt"
  GetPropertyTypeMasterAsync :: "nat \<Rightarrow> api_property_type list attempt"

section \<open>kaveri\_api\_indexer.py\<close>

subsection \<open>The SQLite store of \<^verbatim>\<open>setup_database\<close>\<close>

text \<open>
  Each table is a map from its primary key to the remaining columns. The schema declares
  \<^verbatim>\<open>FOREIGN KEY\<close> clauses, but no connection of the program ever executes
  \<^verbatim>\<open>PRAGMA foreign_keys = ON\<close>, and SQLite does not enforce foreign keys without it:
  \<^verbatim>\<open>INSERT OR REPLACE\<close> is a plain upsert on the primary key.
\<close>

record district_row =
  d_district_name_en :: string
  d_district_name_kn :: string
  d_bhoomi_district_code :: string

record taluka_row =
  t_taluk_name_en :: string
  t_taluk_name_kn :: string
  t_district_code :: int
  t_unit :: string

record hobli_row =
  h_hobli_name_en :: string
  h_hobli_name_kn :: string
  h_taluk_code :: int
  h_bhoomi_taluk_code :: int
  h_bhoomi_district_code :: int
  h_bhoomi_hobli_code :: int

text \<open>The key of \<^verbatim>\<open>villages\<close> is \<^verbatim>\<open>(village_code, hobli_code, ulb_code)\<close>.\<close>

record village_row =
  v_village_name_en :: string
  v_village_name_kn :: string
  v_sro_code :: int
  v_bhoomi_taluk_code :: int
  v_bhoomi_district_code :: int
  v_bhoomi_village_code :: int
  v_is_urban :: int

text \<open>The dictionaries the \<^verbatim>\<open>fetch_*\<close> functions return.\<close>

record node =
  code :: int
  name :: string
  name_kn :: string

record district_node = node +
  bhoomi_code :: string

record taluka_node = node +
  district_code :: int

record hobli_node = node +
  taluk_code :: int

record village_node = node +
  hobli_code :: int
  sro_code :: int
  is_urban :: bool

record stats =
  districts :: nat
  talukas :: nat
  hoblis :: nat
  villages :: nat

type_synonym hobli_data = "int \<times> string \<times> village_node list"
type_synonym taluka_data = "int \<times> string \<times> hobli_data list"
type_synonym district_data = "int \<times> string \<times> taluka_data list"

datatype meta_value = MetaText string | MetaStats stats

text \<open>
  Everything the indexer reads and writes: the five tables, the JSON export, the number
  of HTTP requests issued so far and the durations (in milliseconds) of the calls of
  \<^verbatim>\<open>time.sleep\<close>, in order.
\<close>

record world =
  tbl_districts :: "int \<rightharpoonup> district_row"
  tbl_talukas :: "int \<rightharpoonup> taluka_row"
  tbl_hoblis :: "int \<rightharpoonup> hobli_row"
  tbl_villages :: "(int \<times> int \<times> int) \<rightharpoonup> village_row"
  tbl_metadata :: "string \<rightharpoonup> meta_value"
  json_export :: "(string \<times> stats \<times> district_data list) option"
  requests :: nat
  slept :: "nat list"

definition empty_world :: world where
  "empty_world = \<lparr>tbl_districts = Map.empty, tbl_talukas = Map.empty, tbl_hoblis = Map.empty,
     tbl_villages = Map.empty, tbl_metadata = Map.empty, json_export = None,
     requests = 0, slept = []\<rparr>"

subsection \<open>\<^verbatim>\<open>api_call\<close>\<close>

text \<open>
  The loop \<^verbatim>\<open>for attempt in range(retries)\<close>: the third argument counts the iterations
  left, the fourth is \<^verbatim>\<open>attempt\<close>. A returned value leaves the loop at once, whatever it
  is; an exception sleeps \<^verbatim>\<open>2 ** attempt\<close> seconds and goes on when
  \<^verbatim>\<open>attempt < retries - 1\<close>, and returns \<^verbatim>\<open>[]\<close> otherwise. The \<^verbatim>\<open>return []\<close> after
  the loop is reached when \<^verbatim>\<open>range(retries)\<close> is empty.
\<close>

fun api_call_attempts ::
  "(nat \<Rightarrow> 'a list attempt) \<Rightarrow> int \<Rightarrow> nat \<Rightarrow> int \<Rightarrow> world \<Rightarrow> 'a list \<times> world" where
  "api_call_attempts endpoint retries 0 attempt w = ([], w)"
| "api_call_attempts endpoint retries (Suc n) attempt w =
     (case endpoint (requests w) of
        Json rows \<Rightarrow> (rows, w\<lparr>requests := requests w + 1\<rparr>)
      | Raised e \<Rightarrow>
          if attempt < retries - 1
          then api_call_attempts endpoint retries n (attempt + 1)
                 (w\<lparr>requests := requests w + 1, slept := slept w @ [1000 * 2 ^ nat attempt]\<rparr>)
          else ([], w\<lparr>requests := requests w + 1\<rparr>))"

definition api_call :: "(nat \<Rightarrow> 'a list attempt) \<Rightarrow> int \<Rightarrow> world \<Rightarrow> 'a list \<times> world" where
  "api_call endpoint retries w = api_call_attempts endpoint retries (nat retries) 0 w"

subsection \<open>\<^verbatim>\<open>fetch_districts\<close>, \<^verbatim>\<open>fetch_talukas\<close>, \<^verbatim>\<open>fetch_hoblis\<close>, \<^verbatim>\<open>fetch_villages\<close>\<close>

text \<open>The loop \<^verbatim>\<open>for d in data\<close> of \<^verbatim>\<open>fetch_districts\<close>: the dummy district 0 is skipped.\<close>

fun store_districts ::
  "api_district list \<Rightarrow> district_node list \<Rightarrow> world \<Rightarrow> district_node list \<times> world" where
  "store_districts [] acc w = (acc, w)"
| "store_districts (d # ds) acc w =
     (if ad_districtCode d = 0 then store_districts ds acc w
      else store_districts ds
        (acc @ [\<lparr>code = ad_districtCode d, name = ad_districtNamee d,
                  name_kn = ad_districtNamek d, bhoomi_code = ad_bhoomiDistrictCode d\<rparr>])
        (w\<lparr>tbl_districts := (tbl_districts w)(ad_districtCode d \<mapsto>
             \<lparr>d_district_name_en = ad_districtNamee d, d_district_name_kn = ad_districtNamek d,
              d_bhoomi_district_code = ad_bhoomiDistrictCode d\<rparr>)\<rparr>))"

definition fetch_districts :: "network \<Rightarrow> world \<Rightarrow> district_node list \<times> world" where
  "fetch_districts net w =
     (case api_call (GetDistrictAsync net) 3 w of
        (data, w1) \<Rightarrow> if data = [] then ([], w1) else store_districts data [] w1)"

fun store_talukas ::
  "int \<Rightarrow> api_taluka list \<Rightarrow> taluka_node list \<Rightarrow> world \<Rightarrow> taluka_node list \<times> world" where
  "store_talukas dc [] acc w = (acc, w)"
| "store_talukas dc (t # ts) acc w =
     store_talukas dc ts
       (acc @ [\<lparr>code = at_talukCode t, name = at_talukNamee t, name_kn = at_talukNamek t,
                 district_code = dc\<rparr>])
       (w\<lparr>tbl_talukas := (tbl_talukas w)(at_talukCode t \<mapsto>
            \<lparr>t_taluk_name_en = at_talukNamee t, t_taluk_name_kn = at_talukNamek t,
             t_district_code = dc, t_unit = at_unit t\<rparr>)\<rparr>)"

definition fetch_talukas :: "network \<Rightarrow> int \<Rightarrow> world \<Rightarrow> taluka_node list \<times> world" where
  "fetch_talukas net dc w =
     (case api_call (\<lambda>i. GetTalukaAsync net i dc) 3 w of
        (data, w1) \<Rightarrow> if data = [] then ([], w1) else store_talukas dc data [] w1)"

fun store_hoblis ::
  "int \<Rightarrow> api_hobli list \<Rightarrow> hobli_node list \<Rightarrow> world \<Rightarrow> hobli_node list \<times> world" where
  "store_hoblis tc [] acc w = (acc, w)"
| "store_hoblis tc (h # hs) acc w =
     store_hoblis tc hs
       (acc @ [\<lparr>code = ah_hoblicode h, name = ah_hoblinamee h, name_kn = ah_hoblinamek h,
                 taluk_code = tc\<rparr>])
       (w\<lparr>tbl_hoblis := (tbl_hoblis w)(ah_hoblicode h \<mapsto>
            \<lparr>h_hobli_name_en = ah_hoblinamee h, h_hobli_name_kn = ah_hoblinamek h,
             h_taluk_code = tc, h_bhoomi_taluk_code = ah_bhoomitalukcode h,
             h_bhoomi_district_code = ah_bhoomiDistrictCode h,
             h_bhoomi_hobli_code = ah_bhoomihoblicode h\<rparr>)\<rparr>)"

definition fetch_hoblis :: "network \<Rightarrow> int \<Rightarrow> world \<Rightarrow> hobli_node list \<times> world" where
  "fetch_hoblis net tc w =
     (case api_call (\<lambda>i. GetHobliAsync net i tc) 3 w of
        (data, w1) \<Rightarrow> if data = [] then ([], w1) else store_hoblis tc data [] w1)"

fun store_villages ::
  "int \<Rightarrow> api_village list \<Rightarrow> village_node list \<Rightarrow> world \<Rightarrow> village_node list \<times> world" where
  "store_villages hc [] acc w = (acc, w)"
| "store_villages hc (v # vs) acc w =
     store_villages hc vs
       (acc @ [\<lparr>code = av_villagecode v, name = av_villagenamee v, name_kn = av_villagenamek v,
                 hobli_code = hc, sro_code = av_sroCode v, is_urban = av_isurban v\<rparr>])
       (w\<lparr>tbl_villages := (tbl_villages w)((av_villagecode v, hc, av_ulbcode v) \<mapsto>
            \<lparr>v_village_name_en = av_villagenamee v, v_village_name_kn = av_villagenamek v,
             v_sro_code = av_sroCode v, v_bhoomi_taluk_code = av_bhoomitalukcode v,
             v_bhoomi_district_code = av_bhoomiDistrictCode v,
             v_bhoomi_village_code = av_bhoomivillagecode v,
             v_is_urban = (if av_isurban v then 1 else 0)\<rparr>)\<rparr>)"

definition fetch_villages :: "network \<Rightarrow> int \<Rightarrow> world \<Rightarrow> village_node list \<times> world" where
  "fetch_villages net hc w =
     (case api_call (\<lambda>i. GetVillageAsync net i hc) 3 w of
        (data, w1) \<Rightarrow> if data = [] then ([], w1) else store_villages hc data [] w1)"

subsection \<open>\<^verbatim>\<open>index_all\<close>\<close>

text \<open>
  The three nested loops, innermost first. Each returns the entries appended to the JSON
  hierarchy, the running \<^verbatim>\<open>stats\<close> and the world. The hobli loop sleeps 0.2 seconds
  after every hobli.
\<close>

fun index_hoblis ::
  "network \<Rightarrow> hobli_node list \<Rightarrow> stats \<Rightarrow> world \<Rightarrow> hobli_data list \<times> stats \<times> world" where
  "index_hoblis net [] s w = ([], s, w)"
| "index_hoblis net (hobli # rest) s w =
     (case fetch_villages net (code hobli) w of
        (vs, w1) \<Rightarrow>
          (case index_hoblis net rest (s\<lparr>villages := villages s + length vs\<rparr>)
                  (w1\<lparr>slept := slept w1 @ [200]\<rparr>) of
             (hdata, s2, w2) \<Rightarrow> ((code hobli, name hobli, vs) # hdata, s2, w2)))"

fun index_talukas ::
  "network \<Rightarrow> taluka_node list \<Rightarrow> stats \<Rightarrow> world \<Rightarrow> taluka_data list \<times> stats \<times> world" where
  "index_talukas net [] s w = ([], s, w)"
| "index_talukas net (taluka # rest) s w =
     (case fetch_hoblis net (code taluka) w of
        (hs, w1) \<Rightarrow>
          (case index_hoblis net hs (s\<lparr>hoblis := hoblis s + length hs\<rparr>) w1 of
             (hdata, s2, w2) \<Rightarrow>
               (case index_talukas net rest s2 w2 of
                  (tdata, s3, w3) \<Rightarrow> ((code taluka, name taluka, hdata) # tdata, s3, w3))))"

fun index_districts ::
  "network \<Rightarrow> district_node list \<Rightarrow> stats \<Rightarrow> world \<Rightarrow> district_data list \<times> stats \<times> world" where
  "index_districts net [] s w = ([], s, w)"
| "index_districts net (district # rest) s w =
     (case fetch_talukas net (code district) w of
        (ts, w1) \<Rightarrow>
          (case index_talukas net ts (s\<lparr>talukas := talukas s + length ts\<rparr>) w1 of
             (tdata, s2, w2) \<Rightarrow>
               (case index_districts net rest s2 w2 of
                  (ddata, s3, w3) \<Rightarrow> ((code district, name district, tdata) # ddata, s3, w3))))"

text \<open>
  \<^verbatim>\<open>index_all(specific_district)\<close>. \<^verbatim>\<open>setup_database\<close> creates the tables only if they
  do not exist, so the rows of an earlier run stay. \<open>now_db\<close> and \<open>now_json\<close> are the two
  readings of \<^verbatim>\<open>datetime.now().isoformat()\<close>. The function returns \<^verbatim>\<open>stats\<close>.
\<close>

definition index_all :: "int option \<Rightarrow> string \<Rightarrow> string \<Rightarrow> network \<Rightarrow> world \<Rightarrow> stats \<times> world" where
  "index_all specific_district now_db now_json net w =
     (case fetch_districts net w of
        (ds, w1) \<Rightarrow>
          (case index_districts net
                  (if truthy specific_district
                   then filter (\<lambda>d. Some (code d) = specific_district) ds else ds)
                  \<lparr>districts = length ds, talukas = 0, hoblis = 0, villages = 0\<rparr> w1 of
             (hierarchy, s, w2) \<Rightarrow>
               (s, w2\<lparr>tbl_metadata := (tbl_metadata w2)
                          (''last_updated'' \<mapsto> MetaText now_db, ''stats'' \<mapsto> MetaStats s),
                       json_export := Some (now_json, s, hierarchy)\<rparr>)))"

text \<open>
  Referential integrity of the store: every taluka names a stored district, every hobli a
  stored taluka, every village a stored hobli.
\<close>

definition referential_integrity :: "world \<Rightarrow> bool" where
  "referential_integrity w =
     ((\<forall>t \<in> ran (tbl_talukas w). t_district_code t \<in> dom (tbl_districts w)) \<and>
      (\<forall>h \<in> ran (tbl_hoblis w). h_taluk_code h \<in> dom (tbl_talukas w)) \<and>
      (\<forall>k \<in> dom (tbl_villages w). fst (snd k) \<in> dom (tbl_hoblis w)))"

text \<open>Two worlds hold the same rows in the four location tables.\<close>

definition same_tables :: "world \<Rightarrow> world \<Rightarrow> bool" where
  "same_tables w w' =
     (tbl_districts w = tbl_districts w' \<and> tbl_talukas w = tbl_talukas w' \<and>
      tbl_hoblis w = tbl_hoblis w' \<and> tbl_villages w = tbl_villages w')"

text \<open>
  The service is down for the three round trips that start at request \<open>r\<close>: whatever is
  asked, every one of them raises.
\<close>

definition unavailable :: "network \<Rightarrow> nat \<Rightarrow> bool" where
  "unavailable net r =
     (\<forall>i<3. (\<exists>e. GetDistrictAsync net (r + i) = Raised e) \<and>
        (\<forall>c. (\<exists>e. GetTalukaAsync net (r + i) c = Raised e) \<and>
             (\<exists>e. GetHobliAsync net (r + i) c = Raised e) \<and>
             (\<exists>e. GetVillageAsync net (r + i) c = Raised e)))"

text \<open>The service answers request number \<open>r\<close> with an empty list, whatever is asked.\<close>

definition answers_no_rows :: "network \<Rightarrow> nat \<Rightarrow> bool" where
  "answers_no_rows net r =
     (GetDistrictAsync net r = Json [] \<and>
      (\<forall>c. GetTalukaAsync net r c = Json [] \<and> GetHobliAsync net r c = Json [] \<and>
           GetVillageAsync net r c = Json []))"

text \<open>No key of the parent tables is lost from one world to the next.\<close>

definition keeps_parents :: "world \<Rightarrow> world \<Rightarrow> bool" where
  "keeps_parents w w' =
     (dom (tbl_districts w) \<subseteq> dom (tbl_districts w') \<and>
      dom (tbl_talukas w) \<subseteq> dom (tbl_talukas w') \<and>
      dom (tbl_hoblis w) \<subseteq> dom (tbl_hoblis w'))"






subsection \<open>Concrete services\<close>

text \<open>Services used to run the indexer on concrete inputs.\<close>

definition network_down :: network where
  "network_down = \<lparr>GetDistrictAsync = (\<lambda>i. Raised ''timeout''),
     GetTalukaAsync = (\<lambda>i c. Raised ''timeout''), GetHobliAsync = (\<lambda>i c. Raised ''timeout''),
     GetVillageAsync = (\<lambda>i c. Raised ''timeout''),
     GetPropertyTypeMasterAsync = (\<lambda>i. Raised ''timeout'')\<rparr>"

definition network_no_rows :: network where
  "network_no_rows = \<lparr>GetDistrictAsync = (\<lambda>i. Json []),
     GetTalukaAsync = (\<lambda>i c. Json []), GetHobliAsync = (\<lambda>i c. Json []),
     GetVillageAsync = (\<lambda>i c. Json []), GetPropertyTypeMasterAsync = (\<lambda>i. Json [])\<rparr>"

definition network_empty_then_row :: network where
  "network_empty_then_row = network_no_rows\<lparr>GetTalukaAsync :=
     (\<lambda>i c. if i = 0 then Json []
            else Json [\<lparr>at_talukCode = 20, at_talukNamee = ''T'', at_talukNamek = ''T'',
                        at_unit = ''''\<rparr>])\<rparr>"

definition network_timeout_then_empty :: network where
  "network_timeout_then_empty = network_no_rows\<lparr>GetTalukaAsync :=
     (\<lambda>i c. if i = 0 then Raised ''timeout'' else Json [])\<rparr>"


text \<open>
  A service with two districts (10 and 11) whose taluka request fails for district 10 and
  answers with taluka 21 for any other district; no hoblis anywhere.
\<close>

definition network_partial :: network where
  "network_partial = network_no_rows\<lparr>
     GetDistrictAsync := (\<lambda>i. Json [
        \<lparr>ad_districtCode = 10, ad_districtNamee = ''D'', ad_districtNamek = ''D'',
         ad_bhoomiDistrictCode = ''1''\<rparr>,
        \<lparr>ad_districtCode = 11, ad_districtNamee = ''E'', ad_districtNamek = ''E'',
         ad_bhoomiDistrictCode = ''2''\<rparr>]),
     GetTalukaAsync := (\<lambda>i c. if c = 10 then Raised ''503''
        else Json [\<lparr>at_talukCode = 21, at_talukNamee = ''U'', at_talukNamek = ''U'',
                    at_unit = ''''\<rparr>])\<rparr>"


section \<open>kaveri\_citizen\_assistant.py\<close>

subsection \<open>\<^verbatim>\<open>build_location_hierarchy\<close>\<close>

text \<open>
  \<^verbatim>\<open>_post_json\<close> logs a failed request and re-raises: with request number \<open>n\<close> its outcome
  is the endpoint's outcome, \<^verbatim>\<open>Raised\<close> standing for the exception that propagates. The
  child rows are annotated with the code of their parent (\<^verbatim>\<open>t["districtCode"] = dcode\<close>):
  a pair of the row and the parent code.
\<close>

record hierarchy_data =
  data_districts :: "api_district list"
  data_talukas :: "(api_taluka \<times> int) list"
  data_hoblis :: "(api_hobli \<times> int) list"
  data_villages :: "(api_village \<times> int) list"
  data_property_types :: "api_property_type list"

text \<open>
  The loop over the districts. A district whose code is 0 is skipped without a request
  (\<^verbatim>\<open>if not dcode: continue\<close>); a request that raises is logged and the loop goes on.
  The arguments are the request counter and the list \<^verbatim>\<open>talukas\<close> built so far.
\<close>

fun fetch_all_talukas ::
  "network \<Rightarrow> api_district list \<Rightarrow> nat \<Rightarrow> (api_taluka \<times> int) list \<Rightarrow>
     (api_taluka \<times> int) list \<times> nat" where
  "fetch_all_talukas net [] n acc = (acc, n)"
| "fetch_all_talukas net (d # ds) n acc =
     (if ad_districtCode d = 0 then fetch_all_talukas net ds n acc
      else case GetTalukaAsync net n (ad_districtCode d) of
             Json taluka_rows \<Rightarrow>
               fetch_all_talukas net ds (n + 1)
                 (acc @ map (\<lambda>t. (t, ad_districtCode d)) taluka_rows)
           | Raised e \<Rightarrow> fetch_all_talukas net ds (n + 1) acc)"

fun fetch_all_hoblis ::
  "network \<Rightarrow> (api_taluka \<times> int) list \<Rightarrow> nat \<Rightarrow> (api_hobli \<times> int) list \<Rightarrow>
     (api_hobli \<times> int) list \<times> nat" where
  "fetch_all_hoblis net [] n acc = (acc, n)"
| "fetch_all_hoblis net (t # ts) n acc =
     (if at_talukCode (fst t) = 0 then fetch_all_hoblis net ts n acc
      else case GetHobliAsync net n (at_talukCode (fst t)) of
             Json hobli_rows \<Rightarrow>
               fetch_all_hoblis net ts (n + 1)
                 (acc @ map (\<lambda>h. (h, at_talukCode (fst t))) hobli_rows)
           | Raised e \<Rightarrow> fetch_all_hoblis net ts (n + 1) acc)"

fun fetch_all_villages ::
  "network \<Rightarrow> (api_hobli \<times> int) list \<Rightarrow> nat \<Rightarrow> (api_village \<times> int) list \<Rightarrow>
     (api_village \<times> int) list \<times> nat" where
  "fetch_all_villages net [] n acc = (acc, n)"
| "fetch_all_villages net (h # hs) n acc =
     (if ah_hoblicode (fst h) = 0 then fetch_all_villages net hs n acc
      else case GetVillageAsync net n (ah_hoblicode (fst h)) of
             Json village_rows \<Rightarrow>
               fetch_all_villages net hs (n + 1)
                 (acc @ map (\<lambda>v. (v, ah_hoblicode (fst h))) village_rows)
           | Raised e \<Rightarrow> fetch_all_villages net hs (n + 1) acc)"

text \<open>
  \<^verbatim>\<open>_write_sqlite\<close> drops the tables, creates them again and inserts every row with
  \<^verbatim>\<open>INSERT OR REPLACE\<close>; each table is keyed by its code alone.
\<close>

record location_db =
  db_districts :: "int \<rightharpoonup> api_district"
  db_talukas :: "int \<rightharpoonup> api_taluka \<times> int"
  db_hoblis :: "int \<rightharpoonup> api_hobli \<times> int"
  db_villages :: "int \<rightharpoonup> api_village \<times> int"
  db_property_types :: "int \<rightharpoonup> api_property_type"

definition insert_or_replace :: "('r \<Rightarrow> int) \<Rightarrow> 'r list \<Rightarrow> (int \<rightharpoonup> 'r)" where
  "insert_or_replace key rows = foldl (\<lambda>m r. m(key r \<mapsto> r)) Map.empty rows"

definition write_sqlite :: "hierarchy_data \<Rightarrow> location_db" where
  "write_sqlite data =
     \<lparr>db_districts = insert_or_replace ad_districtCode (data_districts data),
      db_talukas = insert_or_replace (\<lambda>t. at_talukCode (fst t)) (data_talukas data),
      db_hoblis = insert_or_replace (\<lambda>h. ah_hoblicode (fst h)) (data_hoblis data),
      db_villages = insert_or_replace (\<lambda>v. av_villagecode (fst v)) (data_villages data),
      db_property_types = insert_or_replace ap_propertytypeid (data_property_types data)\<rparr>"

text \<open>
  \<^verbatim>\<open>build_location_hierarchy\<close>, started when \<open>n\<close> requests have been issued. The districts
  request is outside every \<^verbatim>\<open>try\<close>: its exception leaves the function (\<open>Inl\<close>) before
  anything is written. The property types are optional. On success the function returns
  \<^verbatim>\<open>data\<close>, which is also the content of the JSON file, and the database it has written.
\<close>

definition build_location_hierarchy ::
  "network \<Rightarrow> nat \<Rightarrow> string + (hierarchy_data \<times> location_db \<times> nat)" where
  "build_location_hierarchy net n =
     (case GetDistrictAsync net n of
        Raised e \<Rightarrow> Inl e
      | Json ds \<Rightarrow>
          (let property_types =
                 (case GetPropertyTypeMasterAsync net (n + 1) of
                    Json ps \<Rightarrow> ps | Raised e \<Rightarrow> [])
           in case fetch_all_talukas net ds (n + 2) [] of
                (ts, n2) \<Rightarrow>
                  (case fetch_all_hoblis net ts n2 [] of
                     (hs, n3) \<Rightarrow>
                       (case fetch_all_villages net hs n3 [] of
                          (vs, n4) \<Rightarrow>
                            (let data = \<lparr>data_districts = ds, data_talukas = ts,
                                         data_hoblis = hs, data_villages = vs,
                                         data_property_types = property_types\<rparr>
                             in Inr (data, write_sqlite data, n4))))))"




subsection \<open>\<^verbatim>\<open>LocationRepo\<close>\<close>

text \<open>
  The four tables the repository reads, each as the list of its rows
  \<^verbatim>\<open>(code, name)\<close> or \<^verbatim>\<open>(code, name, parent code)\<close> in the order of the query's
  \<^verbatim>\<open>ORDER BY\<close> on the name. A \<^verbatim>\<open>WHERE\<close> clause keeps that order, so every query is a
  filter of the list.
\<close>

record LocationRepo =
  district_rows :: "(int \<times> string) list"
  taluka_rows :: "(int \<times> string \<times> int) list"
  hobli_rows :: "(int \<times> string \<times> int) list"
  village_rows :: "(int \<times> string \<times> int) list"

definition repo_districts :: "LocationRepo \<Rightarrow> (int \<times> string) list" where
  "repo_districts repo = filter (\<lambda>r. fst r > 0) (district_rows repo)"

text \<open>
  \<^verbatim>\<open>talukas(district_code)\<close>, \<^verbatim>\<open>hoblis(taluk_code)\<close>, \<^verbatim>\<open>villages(hobli_code)\<close>: the
  \<^verbatim>\<open>WHERE\<close> clause is applied only when the argument is true, so code 0 selects the whole
  table as \<^verbatim>\<open>None\<close> does.
\<close>

definition repo_children :: "(int \<times> string \<times> int) list \<Rightarrow> int option \<Rightarrow> (int \<times> string \<times> int) list" where
  "repo_children rows parent_code =
     (if truthy parent_code then filter (\<lambda>r. Some (snd (snd r)) = parent_code) rows else rows)"

definition repo_talukas :: "LocationRepo \<Rightarrow> int option \<Rightarrow> (int \<times> string \<times> int) list" where
  "repo_talukas repo parent_code = repo_children (taluka_rows repo) parent_code"

definition repo_hoblis :: "LocationRepo \<Rightarrow> int option \<Rightarrow> (int \<times> string \<times> int) list" where
  "repo_hoblis repo parent_code = repo_children (hobli_rows repo) parent_code"

definition repo_villages :: "LocationRepo \<Rightarrow> int option \<Rightarrow> (int \<times> string \<times> int) list" where
  "repo_villages repo parent_code = repo_children (village_rows repo) parent_code"

subsection \<open>\<^verbatim>\<open>SearchConfig\<close> and \<^verbatim>\<open>build_location_combinations\<close>\<close>

record SearchConfig =
  username :: string
  password :: string
  party_name :: string
  from_date :: string
  to_date :: string
  cfg_district_code :: "int option"
  cfg_taluk_code :: "int option"
  cfg_hobli_code :: "int option"
  cfg_village_code :: "int option"
  all_taluks :: bool
  all_hoblis :: bool
  all_villages :: bool
  property_type_id :: "int option"

type_synonym combo = "int \<times> int \<times> int \<times> int \<times> string \<times> string \<times> string \<times> string"

text \<open>The key of the deduplication: \<^verbatim>\<open>(combo[0], combo[1], combo[2], combo[3])\<close>.\<close>

definition combo_key :: "combo \<Rightarrow> int \<times> int \<times> int \<times> int" where
  "combo_key c = (case c of (d, t, h, v, rest) \<Rightarrow> (d, t, h, v))"

text \<open>The rows each of the four nested loops runs over.\<close>

definition district_rows_for :: "LocationRepo \<Rightarrow> SearchConfig \<Rightarrow> (int \<times> string) list" where
  "district_rows_for repo cfg =
     (if truthy (cfg_district_code cfg)
      then filter (\<lambda>d. Some (fst d) = cfg_district_code cfg) (repo_districts repo)
      else repo_districts repo)"

definition taluka_rows_for :: "LocationRepo \<Rightarrow> SearchConfig \<Rightarrow> int \<Rightarrow> (int \<times> string \<times> int) list" where
  "taluka_rows_for repo cfg d_code =
     (if all_taluks cfg then repo_talukas repo (Some d_code)
      else if truthy (cfg_taluk_code cfg)
           then filter (\<lambda>t. Some (fst t) = cfg_taluk_code cfg) (repo_talukas repo (Some d_code))
           else repo_talukas repo (Some d_code))"

definition hobli_rows_for :: "LocationRepo \<Rightarrow> SearchConfig \<Rightarrow> int \<Rightarrow> (int \<times> string \<times> int) list" where
  "hobli_rows_for repo cfg t_code =
     (if all_hoblis cfg then repo_hoblis repo (Some t_code)
      else if truthy (cfg_hobli_code cfg)
           then filter (\<lambda>h. Some (fst h) = cfg_hobli_code cfg) (repo_hoblis repo (Some t_code))
           else repo_hoblis repo (Some t_code))"

definition village_rows_for :: "LocationRepo \<Rightarrow> SearchConfig \<Rightarrow> int \<Rightarrow> (int \<times> string \<times> int) list" where
  "village_rows_for repo cfg h_code =
     (if all_villages cfg then repo_villages repo (Some h_code)
      else if truthy (cfg_village_code cfg)
           then filter (\<lambda>v. Some (fst v) = cfg_village_code cfg) (repo_villages repo (Some h_code))
           else repo_villages repo (Some h_code))"

text \<open>The list \<^verbatim>\<open>combos\<close> after the four nested loops, before the deduplication.\<close>

definition candidate_combos :: "LocationRepo \<Rightarrow> SearchConfig \<Rightarrow> combo list" where
  "candidate_combos repo cfg =
     concat (map (\<lambda>(d_code, d_name).
       concat (map (\<lambda>(t_code, t_name, _).
         concat (map (\<lambda>(h_code, h_name, _).
           map (\<lambda>(v_code, v_name, _).
                  (d_code, t_code, h_code, v_code, d_name, t_name, h_name, v_name))
               (village_rows_for repo cfg h_code))
           (hobli_rows_for repo cfg t_code)))
         (taluka_rows_for repo cfg d_code)))
       (district_rows_for repo cfg))"

text \<open>The loop \<^verbatim>\<open>for combo in combos\<close> with its set \<^verbatim>\<open>seen\<close> and its list \<^verbatim>\<open>unique_combos\<close>.\<close>

fun unique_loop :: "combo list \<Rightarrow> (int \<times> int \<times> int \<times> int) set \<Rightarrow> combo list \<Rightarrow> combo list" where
  "unique_loop [] seen unique_combos = unique_combos"
| "unique_loop (combo # combos) seen unique_combos =
     (if combo_key combo \<notin> seen
      then unique_loop combos (insert (combo_key combo) seen) (unique_combos @ [combo])
      else unique_loop combos seen unique_combos)"

text \<open>
  The function returns \<^verbatim>\<open>unique_combos\<close>. The second component is the number in the
  message \<^verbatim>\<open>Removed n duplicate combinations\<close> that \<^verbatim>\<open>logger.info\<close> writes, \<open>None\<close> when
  the \<^verbatim>\<open>if\<close> around it is false and nothing is logged.
\<close>

definition build_location_combinations :: "LocationRepo \<Rightarrow> SearchConfig \<Rightarrow> combo list \<times> nat option" where
  "build_location_combinations repo cfg =
     (let combos = candidate_combos repo cfg;
          unique_combos = unique_loop combos {} []
      in (unique_combos,
          if length unique_combos < length combos
          then Some (length combos - length unique_combos) else None))"

text \<open>Stores and filters to run the expansion on.\<close>

definition repo_one_district :: LocationRepo where
  "repo_one_district = \<lparr>district_rows = [(10, ''D'')],
     taluka_rows = [(20, ''T'', 10), (21, ''U'', 10)],
     hobli_rows = [(30, ''H'', 20)],
     village_rows = [(40, ''V'', 30), (41, ''W'', 30)]\<rparr>"

definition repo_two_districts :: LocationRepo where
  "repo_two_districts = \<lparr>district_rows = [(10, ''D''), (11, ''E'')],
     taluka_rows = [(20, ''T'', 10), (21, ''U'', 11)],
     hobli_rows = [(30, ''H'', 20), (31, ''I'', 21)],
     village_rows = [(40, ''V'', 30), (41, ''W'', 31)]\<rparr>"

definition repo_repeated_village :: LocationRepo where
  "repo_repeated_village = \<lparr>district_rows = [(10, ''D'')],
     taluka_rows = [(20, ''T'', 10)],
     hobli_rows = [(30, ''H'', 20)],
     village_rows = [(40, ''V'', 30), (41, ''W'', 30), (40, ''V2'', 30)]\<rparr>"

definition cfg_all :: SearchConfig where
  "cfg_all = \<lparr>username = ''u'', password = ''p'', party_name = ''KRISHNAPPA'',
     from_date = ''2003-01-01'', to_date = ''2024-01-01'',
     cfg_district_code = None, cfg_taluk_code = None, cfg_hobli_code = None,
     cfg_village_code = None, all_taluks = True, all_hoblis = True, all_villages = True,
     property_type_id = None\<rparr>"

definition cfg_taluk_20 :: SearchConfig where
  "cfg_taluk_20 = cfg_all\<lparr>cfg_district_code := Some 10, all_taluks := False,
     cfg_taluk_code := Some 20, all_hoblis := True, all_villages := False\<rparr>"

text \<open>
  A store where district 10 has a taluka with code 0 and district 11 a village, and a
  filter that names district 10.
\<close>

definition repo_zero_taluka :: LocationRepo where
  "repo_zero_taluka = \<lparr>district_rows = [(10, ''D''), (11, ''E'')],
     taluka_rows = [(0, ''Z'', 10), (21, ''U'', 11)],
     hobli_rows = [(31, ''I'', 21)],
     village_rows = [(41, ''W'', 31)]\<rparr>"

definition cfg_district_10 :: SearchConfig where
  "cfg_district_10 = cfg_all\<lparr>cfg_district_code := Some 10\<rparr>"

subsection \<open>\<^verbatim>\<open>KaveriSearchBot.search_one\<close> and the loop of \<^verbatim>\<open>run_search\<close>\<close>















section \<open>kaveri\_hybrid\_search.py\<close>

subsection \<open>\<^verbatim>\<open>load_session\<close> and \<^verbatim>\<open>is_session_valid\<close>\<close>

text \<open>
  The field \<^verbatim>\<open>saved_at\<close> of the session file: missing (or empty), a string that
  \<^verbatim>\<open>datetime.fromisoformat\<close> or the subtraction from \<^verbatim>\<open>datetime.now()\<close> rejects, or a
  naive datetime, counted in microseconds.
\<close>

datatype saved_at_field = NoSavedAt | BadSavedAt | SavedAt int

record session =
  append_token :: "string option"
  cookies :: "(string \<times> string) list"
  saved_at :: saved_at_field

text \<open>\<^verbatim>\<open>load_session\<close> returns the empty dictionary when the file is missing or unreadable.\<close>

definition load_session :: "session option \<Rightarrow> session" where
  "load_session session_file =
     (case session_file of
        None \<Rightarrow> \<lparr>append_token = None, cookies = [], saved_at = NoSavedAt\<rparr>
      | Some s \<Rightarrow> s)"

text \<open>
  The attribute \<^verbatim>\<open>seconds\<close> of a \<^verbatim>\<open>timedelta\<close> of \<open>d\<close> microseconds. Python keeps a
  \<^verbatim>\<open>timedelta\<close> as days, seconds (from 0 to 86399) and microseconds; \<^verbatim>\<open>seconds\<close> is
  the middle part, not the whole duration, which is \<^verbatim>\<open>total_seconds()\<close>.
\<close>

definition timedelta_seconds :: "int \<Rightarrow> int" where
  "timedelta_seconds d = (d div 1000000) mod 86400"

definition total_seconds :: "int \<Rightarrow> int" where
  "total_seconds d = d div 1000000"

text \<open>\<^verbatim>\<open>is_session_valid\<close>, with the session file and the reading of \<^verbatim>\<open>datetime.now()\<close>.\<close>

definition is_session_valid :: "session option \<Rightarrow> int \<Rightarrow> bool" where
  "is_session_valid session_file now =
     (let session = load_session session_file;
          has_token = (case append_token session of None \<Rightarrow> False | Some t \<Rightarrow> t \<noteq> []);
          has_cookies = (cookies session \<noteq> [])
      in if \<not> has_token \<and> \<not> has_cookies then False
         else case saved_at session of
                NoSavedAt \<Rightarrow> True
              | BadSavedAt \<Rightarrow> True
              | SavedAt saved_time \<Rightarrow>
                  if timedelta_seconds (now - saved_time) > 3600 then False else True)"

text \<open>A session with a token, saved at time 0.\<close>

definition session_saved_at_zero :: session where
  "session_saved_at_zero = \<lparr>append_token = Some ''token'', cookies = [], saved_at = SavedAt 0\<rparr>"

section \<open>kaveri\_direct\_api.py\<close>

subsection \<open>Rows and the CSV file\<close>

text \<open>
  A record of a search response: a dictionary, as the list of its items in key order.
  \<open>dict_set\<close> is the assignment \<^verbatim>\<open>r[k] = v\<close>: it replaces the value of an existing key
  in place and appends a new key at the end.
\<close>

type_synonym record_dict = "(string \<times> string) list"

fun dict_set :: "record_dict \<Rightarrow> string \<Rightarrow> string \<Rightarrow> record_dict" where
  "dict_set [] k v = [(k, v)]"
| "dict_set ((k', v') # d) k v = (if k' = k then (k, v) # d else (k', v') # dict_set d k v)"

text \<open>
  The output path is in one of three states. \<open>Lines\<close> is a file, the list of its lines,
  each the list of its cells. \<open>Absent\<close> is a path where no file exists yet and one can be
  created. \<open>Unopenable\<close> is a path that \<^verbatim>\<open>open(filepath, "a")\<close> cannot create: one of
  its directories does not exist. The path is built from the raw party name
  (\<^verbatim>\<open>f"ec_search_{party_name}_{timestamp}.csv"\<close>), so a party name holding a \<^verbatim>\<open>/\<close> gives
  such a path; \<^verbatim>\<open>exists()\<close> is false for it and \<^verbatim>\<open>open\<close> raises
  \<^verbatim>\<open>FileNotFoundError\<close>.
\<close>

datatype csv_file = Unopenable | Absent | Lines "string list list"

text \<open>
  The two exceptions of the incremental save: the \<^verbatim>\<open>FileNotFoundError\<close> of \<^verbatim>\<open>open\<close>,
  whose message names the path, and the \<^verbatim>\<open>ValueError\<close> of the CSV writer, whose message
  \<^verbatim>\<open>dict contains fields not in fieldnames: ...\<close> names the keys of the row that are not
  in \<^verbatim>\<open>fieldnames\<close> (here in the order of the row; the writer lists them in the order of
  a Python set).
\<close>

datatype csv_error = NoSuchFile | FieldsNotInFieldnames "string list"

text \<open>
  \<^verbatim>\<open>csv.DictWriter(f, fieldnames=records[0].keys())\<close> writes the header when the file is
  new and then the rows one by one: a missing key gives an empty cell, and a row with a key
  outside \<^verbatim>\<open>fieldnames\<close> raises \<^verbatim>\<open>ValueError\<close>, the rows before it having been
  written. The result is \<open>Inr\<close> the file, or \<open>Inl\<close> the exception and the file it leaves
  behind. With no records nothing is opened.
\<close>

definition csv_cells :: "string list \<Rightarrow> record_dict \<Rightarrow> string list" where
  "csv_cells fieldnames r = map (\<lambda>k. case map_of r k of None \<Rightarrow> [] | Some v \<Rightarrow> v) fieldnames"

definition csv_row_fits :: "string list \<Rightarrow> record_dict \<Rightarrow> bool" where
  "csv_row_fits fieldnames r = list_all (\<lambda>k. k \<in> set fieldnames) (map fst r)"

definition wrong_fields :: "string list \<Rightarrow> record_dict \<Rightarrow> string list" where
  "wrong_fields fieldnames r = filter (\<lambda>k. k \<notin> set fieldnames) (map fst r)"

definition append_to_csv ::
  "csv_file \<Rightarrow> record_dict list \<Rightarrow> (csv_error \<times> csv_file) + csv_file" where
  "append_to_csv file records =
     (case records of
        [] \<Rightarrow> Inr file
      | first # _ \<Rightarrow>
          (if file = Unopenable then Inl (NoSuchFile, Unopenable)
           else
             (let fieldnames = map fst first;
                  before = (case file of Lines ls \<Rightarrow> ls | _ \<Rightarrow> [fieldnames]);
                  written = takeWhile (csv_row_fits fieldnames) records;
                  after = Lines (before @ map (csv_cells fieldnames) written)
              in case dropWhile (csv_row_fits fieldnames) records of
                   [] \<Rightarrow> Inr after
                 | bad # _ \<Rightarrow> Inl (FieldsNotInFieldnames (wrong_fields fieldnames bad), after))))"

subsection \<open>\<^verbatim>\<open>search_ec\<close>\<close>

text \<open>The lines the functions write to the log.\<close>

datatype log_line =
    LogProcessing nat nat string
  | LogGeneratingCaptcha string
  | LogSolvingCaptcha
  | LogSearching string string
  | LogApiWarning string
  | LogFound nat
  | LogError string
  | LogSaveError csv_error

text \<open>
  The value of \<^verbatim>\<open>data\<close> in a search response: the records (a list, or a string holding
  the JSON of a list; an absent key reads as the empty list), a string that is not JSON,
  which the code reads as no records, or JSON \<^verbatim>\<open>null\<close>, on which \<^verbatim>\<open>len(records)\<close>
  raises \<^verbatim>\<open>TypeError\<close>.
\<close>

datatype response_records = Records "record_dict list" | NotJson | Null

text \<open>
  The JSON body of a search response: \<^verbatim>\<open>responseCode\<close>, \<^verbatim>\<open>responseMessage\<close> and
  \<^verbatim>\<open>data\<close>.
\<close>

record search_response =
  responseCode :: int
  responseMessage :: string
  response_data :: response_records

text \<open>
  What the three remote steps of one \<^verbatim>\<open>search_ec\<close> call do: \<^verbatim>\<open>generate_captcha\<close>
  (the challenge id and image, or an exception), \<^verbatim>\<open>solve_captcha\<close> (the solved text, or
  the exception of the solving service: a timeout, a service error) and the search request
  itself (the decoded body, or the exception of \<^verbatim>\<open>post\<close>, \<^verbatim>\<open>raise_for_status\<close> or
  \<^verbatim>\<open>json\<close>).
\<close>

record ec_env =
  generate_captcha :: "(string \<times> string) attempt"
  solve_captcha :: "string attempt"
  new_ec_search :: "search_response attempt"

text \<open>
  \<^verbatim>\<open>search_ec\<close>: \<open>Inl\<close> is the message of the exception that leaves the function, \<open>Inr\<close>
  the records returned; the second component is what was logged. The \<^verbatim>\<open>TypeError\<close> of
  \<^verbatim>\<open>len(records)\<close> is raised while the \<^verbatim>\<open>Found\<close> line is being built, so that line is
  not logged.
\<close>

definition search_ec ::
  "string option \<Rightarrow> string \<Rightarrow> string \<Rightarrow> ec_env \<Rightarrow> (string + record_dict list) \<times> log_line list" where
  "search_ec token village_code party env =
     (if token = None \<or> token = Some [] then (Inl ''No session token. Please login first.'', [])
      else case generate_captcha env of
        Raised e \<Rightarrow> (Inl e, [LogGeneratingCaptcha village_code])
      | Json challenge \<Rightarrow>
          (case solve_captcha env of
             Raised e \<Rightarrow> (Inl e, [LogGeneratingCaptcha village_code, LogSolvingCaptcha])
           | Json captcha_code \<Rightarrow>
               (case new_ec_search env of
                  Raised e \<Rightarrow>
                    (Inl e, [LogGeneratingCaptcha village_code, LogSolvingCaptcha,
                             LogSearching party village_code])
                | Json result \<Rightarrow>
                    if responseCode result \<noteq> 1000
                    then (Inr [], [LogGeneratingCaptcha village_code, LogSolvingCaptcha,
                                   LogSearching party village_code,
                                   LogApiWarning (responseMessage result)])
                    else (case response_data result of
                            Null \<Rightarrow>
                              (Inl ''object of type 'NoneType' has no len()'',
                               [LogGeneratingCaptcha village_code, LogSolvingCaptcha,
                                LogSearching party village_code])
                          | NotJson \<Rightarrow>
                              (Inr [],
                               [LogGeneratingCaptcha village_code, LogSolvingCaptcha,
                                LogSearching party village_code, LogFound 0])
                          | Records records \<Rightarrow>
                              (Inr records,
                               [LogGeneratingCaptcha village_code, LogSolvingCaptcha,
                                LogSearching party village_code, LogFound (length records)])))))"

subsection \<open>\<^verbatim>\<open>batch_search\<close>\<close>

text \<open>
  The state of a batch: \<^verbatim>\<open>all_results\<close>, the output file, the log, and the durations of
  the calls of \<^verbatim>\<open>time.sleep\<close>.
\<close>

record batch_state =
  bs_all_results :: "record_dict list"
  bs_output_file :: csv_file
  bs_log :: "log_line list"
  bs_slept :: "nat list"

text \<open>
  One iteration of the loop, for the village of index \<open>idx\<close> (from 1) out of \<open>tot\<close>.
  Whatever is raised inside the \<^verbatim>\<open>try\<close> (by \<^verbatim>\<open>search_ec\<close>, by \<^verbatim>\<open>open\<close> or by the
  CSV writer) is caught and logged with its own message; the sleep after it is outside the
  \<^verbatim>\<open>try\<close>.
\<close>

definition batch_step ::
  "string option \<Rightarrow> string \<Rightarrow> nat \<Rightarrow> nat \<Rightarrow> nat \<Rightarrow> string \<times> ec_env \<Rightarrow> batch_state \<Rightarrow> batch_state" where
  "batch_step token party delay tot idx target st =
     (case target of (village_code, env) \<Rightarrow>
        (let st1 = st\<lparr>bs_log := bs_log st @ [LogProcessing idx tot village_code]\<rparr>;
             st2 =
               (case search_ec token village_code party env of
                  (Inl e, lines) \<Rightarrow> st1\<lparr>bs_log := bs_log st1 @ lines @ [LogError e]\<rparr>
                | (Inr results, lines) \<Rightarrow>
                    (let tagged = map (\<lambda>r. dict_set r ''_search_village_code'' village_code) results;
                         st' = st1\<lparr>bs_log := bs_log st1 @ lines,
                                   bs_all_results := bs_all_results st1 @ tagged\<rparr>
                     in case append_to_csv (bs_output_file st') tagged of
                          Inr file \<Rightarrow> st'\<lparr>bs_output_file := file\<rparr>
                        | Inl (e, file) \<Rightarrow>
                            st'\<lparr>bs_output_file := file,
                                bs_log := bs_log st' @ [LogSaveError e]\<rparr>))
         in if idx < tot then st2\<lparr>bs_slept := bs_slept st2 @ [delay]\<rparr> else st2))"








section \<open>kaveri\_smart\_search.py\<close>

subsection \<open>\<^verbatim>\<open>BrowserController.search_village\<close>\<close>

text \<open>
  \<^verbatim>\<open>str.lower\<close> on the ASCII letters, and the substring test \<^verbatim>\<open>sub in s\<close>. The words
  looked for are ASCII and none of them ends in a letter that the lower-casing of a
  non-ASCII character produces, so the other characters are left as they are.
\<close>

definition lower_char :: "char \<Rightarrow> char" where
  "lower_char c =
     (case map_of (zip ''ABCDEFGHIJKLMNOPQRSTUVWXYZ'' ''abcdefghijklmnopqrstuvwxyz'') c of
        None \<Rightarrow> c | Some l \<Rightarrow> l)"

definition lower :: "string \<Rightarrow> string" where
  "lower s = map lower_char s"

fun contains :: "string \<Rightarrow> string \<Rightarrow> bool" where
  "contains sub [] = (sub = [])"
| "contains sub (c # s) = (prefix sub (c # s) \<or> contains sub s)"

text \<open>
  What the browser does during one call of \<^verbatim>\<open>search_village\<close>: the results of the helper
  methods, which catch their own exceptions and return a boolean or a list, and the page
  source read after the click, which may raise.
\<close>

record village_obs =
  fill_party_ok :: bool
  select_village_ok :: bool
  solve_and_fill_captcha_ok :: bool
  click_search_ok :: bool
  page_source :: "string attempt"
  results_table :: "record_dict list"

text \<open>\<^verbatim>\<open>check_no_results\<close> on a page source.\<close>

definition check_no_results :: "string \<Rightarrow> bool" where
  "check_no_results src =
     (contains ''no record'' (lower src) \<or> contains ''no data'' (lower src) \<or>
      contains ''not found'' (lower src))"

text \<open>\<^verbatim>\<open>search_village\<close> returns \<^verbatim>\<open>(success, results, error_message)\<close>.\<close>

definition search_village :: "village_obs \<Rightarrow> string \<Rightarrow> bool \<times> record_dict list \<times> string" where
  "search_village obs village_name =
     (if \<not> fill_party_ok obs then (False, [], ''Could not fill party name'')
      else if \<not> select_village_ok obs
           then (False, [], ''Could not select village: '' @ village_name)
      else if \<not> solve_and_fill_captcha_ok obs then (False, [], ''CAPTCHA solving failed'')
      else if \<not> click_search_ok obs then (False, [], ''Could not click search button'')
      else case page_source obs of
             Raised e \<Rightarrow>
               if contains ''session'' (lower e) \<or> contains ''login'' (lower e) \<or>
                  contains ''unauthorized'' (lower e)
               then (False, [], ''SESSION_EXPIRED'')
               else (False, [], e)
           | Json src \<Rightarrow>
               if contains ''session'' (lower src) \<and> contains ''expired'' (lower src)
               then (False, [], ''SESSION_EXPIRED'')
               else if contains ''unauthorized'' (lower src) then (False, [], ''SESSION_EXPIRED'')
               else if check_no_results src then (True, [], [])
               else (True, results_table obs, []))"

subsection \<open>The search loop of \<^verbatim>\<open>main\<close>\<close>

datatype status_line =
    StatusIdle
  | StatusSearching string nat nat
  | StatusStoppedSessionExpired
  | StatusComplete

text \<open>
  The variables of the run (\<^verbatim>\<open>all_results\<close>, \<^verbatim>\<open>errors\<close>, \<^verbatim>\<open>session_expired\<close>), the
  output file, the \<^verbatim>\<open>status\<close> placeholder, the messages shown with \<^verbatim>\<open>st.error\<close>, the
  number of calls of \<^verbatim>\<open>search_village\<close> made and the sleeps.
\<close>

record run_state =
  rs_all_results :: "record_dict list"
  rs_errors :: "string list"
  rs_session_expired :: bool
  rs_output_file :: csv_file
  rs_status :: status_line
  rs_shown_errors :: "string list"
  rs_searches :: nat
  rs_slept :: "nat list"


text \<open>
  The loop \<^verbatim>\<open>for idx, village in enumerate(villages)\<close>, each village \<^verbatim>\<open>(code, name)\<close>
  paired with what the browser does during its search. The incremental save is the code of
  \<^verbatim>\<open>_append_to_csv\<close> written in line, outside any \<^verbatim>\<open>try\<close>: a \<^verbatim>\<open>FileNotFoundError\<close>
  of \<^verbatim>\<open>open\<close> (the path is built from the raw party name, as
  \<^verbatim>\<open>f"smart_{party_name}_{timestamp}.csv"\<close>) or a \<^verbatim>\<open>ValueError\<close> of the CSV writer ends
  the script, which is the result \<open>Inl\<close> with the state it leaves behind.
  \<open>Inr\<close> is the state when the loop is left, by exhaustion or by \<^verbatim>\<open>break\<close>.
\<close>

fun search_loop ::
  "nat \<Rightarrow> nat \<Rightarrow> ((int \<times> string) \<times> village_obs) list \<Rightarrow> run_state \<Rightarrow> run_state + run_state" where
  "search_loop tot idx [] st = Inr st"
| "search_loop tot idx ((village, obs) # rest) st =
     (if rs_session_expired st then Inr st
      else
        (let st1 = st\<lparr>rs_status := StatusSearching (snd village) (idx + 1) tot,
                      rs_searches := rs_searches st + 1\<rparr>
         in case search_village obs (snd village) of
              (success, results, error) \<Rightarrow>
                if error = ''SESSION_EXPIRED''
                then Inr (st1\<lparr>rs_session_expired := True,
                              rs_shown_errors := rs_shown_errors st1 @
                                [''SESSION EXPIRED! Please login again.'']\<rparr>)
                else if success
                then (let tagged = map (\<lambda>r. dict_set r ''_village'' (snd village)) results;
                          st2 = st1\<lparr>rs_all_results := rs_all_results st1 @ tagged\<rparr>
                      in case append_to_csv (rs_output_file st2) tagged of
                           Inl (e, file) \<Rightarrow> Inl (st2\<lparr>rs_output_file := file\<rparr>)
                         | Inr file \<Rightarrow>
                             search_loop tot (idx + 1) rest
                               (st2\<lparr>rs_output_file := file, rs_slept := rs_slept st2 @ [1000]\<rparr>))
                else search_loop tot (idx + 1) rest
                       ((if error \<noteq> []
                         then st1\<lparr>rs_errors := rs_errors st1 @ [snd village @ '': '' @ error]\<rparr>
                         else st1)\<lparr>rs_slept := rs_slept st1 @ [1000]\<rparr>)))"





section \<open>Properties of the indexer\<close>

text \<open>What \<^verbatim>\<open>api_call\<close> does when the first \<open>k\<close> round trips raise and the next one returns.\<close>

lemma api_call_attempts_returns:
  assumes "\<And>i. i < k \<Longrightarrow> \<exists>e. endpoint (requests w + i) = Raised e"
    and "endpoint (requests w + k) = Json rows"
    and "k < n" and "int n + a = retries"
  shows "api_call_attempts endpoint retries n a w =
           (rows, w\<lparr>requests := requests w + k + 1,
                    slept := slept w @ map (\<lambda>i. 1000 * 2 ^ nat (a + int i)) [0..<k]\<rparr>)"
  using assms
proof (induction k arbitrary: n a w)
  case 0
  then obtain m where n: "n = Suc m" by (cases n) auto
  show ?case using 0 by (simp add: n)
next
  case (Suc k)
  then obtain m where n: "n = Suc m" by (cases n) auto
  from Suc.prems(1)[of 0] obtain e where e: "endpoint (requests w) = Raised e" by auto
  let ?w = "w\<lparr>requests := requests w + 1, slept := slept w @ [1000 * 2 ^ nat a]\<rparr>"
  have lt: "a < retries - 1" using Suc.prems(3,4) by simp
  have step: "api_call_attempts endpoint retries n a w =
                api_call_attempts endpoint retries m (a + 1) ?w"
    using e lt by (simp add: n)
  have ih: "api_call_attempts endpoint retries m (a + 1) ?w =
              (rows, ?w\<lparr>requests := requests ?w + k + 1,
                 slept := slept ?w @ map (\<lambda>i. 1000 * 2 ^ nat (a + 1 + int i)) [0..<k]\<rparr>)"
  proof (rule Suc.IH)
    fix i assume "i < k"
    then show "\<exists>e. endpoint (requests ?w + i) = Raised e"
      using Suc.prems(1)[of "Suc i"] by simp
  next
    show "endpoint (requests ?w + k) = Json rows" using Suc.prems(2) by simp
    show "k < m" using Suc.prems(3) n by simp
    show "int m + (a + 1) = retries" using Suc.prems(4) n by simp
  qed
  have maps: "[1000 * 2 ^ nat a] @ map (\<lambda>i. 1000 * 2 ^ nat (a + 1 + int i)) [0..<k]
                = map (\<lambda>i. (1000::nat) * 2 ^ nat (a + int i)) [0..<Suc k]"
    by (simp add: upt_rec[of 0 "Suc k"] map_Suc_upt[symmetric] add.commute add.left_commute
          del: upt_Suc)
  show ?case unfolding step ih using maps by simp
qed


text \<open>What \<^verbatim>\<open>api_call\<close> does when every round trip of the loop raises.\<close>

lemma api_call_attempts_fails:
  assumes "\<And>i. i < n \<Longrightarrow> \<exists>e. endpoint (requests w + i) = Raised e"
    and "int n + a = retries"
  shows "api_call_attempts endpoint retries n a w =
           ([], w\<lparr>requests := requests w + n,
                  slept := slept w @ map (\<lambda>i. 1000 * 2 ^ nat (a + int i)) [0..<n - 1]\<rparr>)"
  using assms
proof (induction n arbitrary: a w)
  case 0
  then show ?case by simp
next
  case (Suc n)
  from Suc.prems(1)[of 0] obtain e where e: "endpoint (requests w) = Raised e" by auto
  show ?case
  proof (cases n)
    case 0
    then have "\<not> a < retries - 1" using Suc.prems(2) by simp
    then show ?thesis using e 0 by simp
  next
    case (Suc m)
    let ?w = "w\<lparr>requests := requests w + 1, slept := slept w @ [1000 * 2 ^ nat a]\<rparr>"
    have lt: "a < retries - 1" using Suc.prems(2) Suc by simp
    have step: "api_call_attempts endpoint retries (Suc n) a w =
                  api_call_attempts endpoint retries n (a + 1) ?w"
      using e lt by simp
    have ih: "api_call_attempts endpoint retries n (a + 1) ?w =
                ([], ?w\<lparr>requests := requests ?w + n,
                   slept := slept ?w @ map (\<lambda>i. 1000 * 2 ^ nat (a + 1 + int i)) [0..<n - 1]\<rparr>)"
    proof (rule Suc.IH)
      fix i assume "i < n"
      then show "\<exists>e. endpoint (requests ?w + i) = Raised e"
        using Suc.prems(1)[of "Suc i"] by simp
    next
      show "int n + (a + 1) = retries" using Suc.prems(2) by simp
    qed
    have maps: "[1000 * 2 ^ nat a] @ map (\<lambda>i. 1000 * 2 ^ nat (a + 1 + int i)) [0..<m]
                  = map (\<lambda>i. (1000::nat) * 2 ^ nat (a + int i)) [0..<Suc m]"
      by (simp add: upt_rec[of 0 "Suc m"] map_Suc_upt[symmetric] add.commute add.left_commute
            del: upt_Suc)
    show ?thesis unfolding step ih using maps Suc by simp
  qed
qed

lemma api_call_fails:
  assumes "\<And>i. i < nat retries \<Longrightarrow> \<exists>e. endpoint (requests w + i) = Raised e"
  shows "api_call endpoint retries w =
           ([], w\<lparr>requests := requests w + nat retries,
                  slept := slept w @ map (\<lambda>i. 1000 * 2 ^ i) [0..<nat retries - 1]\<rparr>)"
proof (cases "0 \<le> retries")
  case True
  then have "int (nat retries) + 0 = retries" by simp
  with api_call_attempts_fails[of "nat retries" endpoint w 0 retries] assms show ?thesis
    by (simp add: api_call_def)
next
  case False
  then show ?thesis by (simp add: api_call_def)
qed

lemma api_call_returns:
  assumes "\<And>i. i < k \<Longrightarrow> \<exists>e. endpoint (requests w + i) = Raised e"
    and "endpoint (requests w + k) = Json rows"
    and "int k < retries"
  shows "api_call endpoint retries w =
           (rows, w\<lparr>requests := requests w + k + 1,
                    slept := slept w @ map (\<lambda>i. 1000 * 2 ^ i) [0..<k]\<rparr>)"
proof -
  have "k < nat retries" "int (nat retries) + 0 = retries" using assms(3) by simp_all
  with api_call_attempts_returns[of k endpoint w rows "nat retries" 0 retries] assms(1,2)
  show ?thesis
    by (simp add: api_call_def)
qed

lemma api_call_three_fail:
  assumes "\<And>i. i < 3 \<Longrightarrow> \<exists>e. endpoint (requests w + i) = Raised e"
  shows "api_call endpoint 3 w =
           ([], w\<lparr>requests := requests w + 3, slept := slept w @ [1000, 2000]\<rparr>)"
proof -
  have "\<And>i. i < nat 3 \<Longrightarrow> \<exists>e. endpoint (requests w + i) = Raised e"
    using assms by simp
  from api_call_fails[of 3 endpoint w, OF this] show ?thesis
    by (simp add: upt_rec[of 0] upt_rec[of 1] numeral_2_eq_2)
qed

lemma api_call_first_returns:
  assumes "endpoint (requests w) = Json rows" and "0 < retries"
  shows "api_call endpoint retries w = (rows, w\<lparr>requests := requests w + 1\<rparr>)"
  using api_call_returns[of 0 endpoint w rows retries] assms by simp

text \<open>The four call sites of \<^verbatim>\<open>api_call\<close>: what they do with an empty result.\<close>

lemma fetch_districts_Nil:
  "api_call (GetDistrictAsync net) 3 w = ([], w1) \<Longrightarrow> fetch_districts net w = ([], w1)"
  by (simp add: fetch_districts_def)

lemma fetch_talukas_Nil:
  "api_call (\<lambda>i. GetTalukaAsync net i dc) 3 w = ([], w1) \<Longrightarrow> fetch_talukas net dc w = ([], w1)"
  by (simp add: fetch_talukas_def)

lemma fetch_hoblis_Nil:
  "api_call (\<lambda>i. GetHobliAsync net i tc) 3 w = ([], w1) \<Longrightarrow> fetch_hoblis net tc w = ([], w1)"
  by (simp add: fetch_hoblis_def)

lemma fetch_villages_Nil:
  "api_call (\<lambda>i. GetVillageAsync net i hc) 3 w = ([], w1) \<Longrightarrow> fetch_villages net hc w = ([], w1)"
  by (simp add: fetch_villages_def)

lemma same_tables_requests [simp]:
  "same_tables (w\<lparr>requests := r\<rparr>) w' = same_tables w w'"
  "same_tables w (w'\<lparr>requests := r\<rparr>) = same_tables w w'"
  "same_tables (w\<lparr>slept := sl\<rparr>) w' = same_tables w w'"
  "same_tables w (w'\<lparr>slept := sl\<rparr>) = same_tables w w'"
  by (simp_all add: same_tables_def)

lemma same_tables_refl [simp]: "same_tables w w"
  by (simp add: same_tables_def)

lemma fetch_unavailable:
  assumes "unavailable net (requests w)"
  shows "fetch_districts net w = ([], w\<lparr>requests := requests w + 3, slept := slept w @ [1000, 2000]\<rparr>)"
    and "fetch_talukas net c w = ([], w\<lparr>requests := requests w + 3, slept := slept w @ [1000, 2000]\<rparr>)"
    and "fetch_hoblis net c w = ([], w\<lparr>requests := requests w + 3, slept := slept w @ [1000, 2000]\<rparr>)"
    and "fetch_villages net c w = ([], w\<lparr>requests := requests w + 3, slept := slept w @ [1000, 2000]\<rparr>)"
proof -
  show "fetch_districts net w = ([], w\<lparr>requests := requests w + 3, slept := slept w @ [1000, 2000]\<rparr>)"
    by (rule fetch_districts_Nil, rule api_call_three_fail)
       (use assms in \<open>simp add: unavailable_def\<close>)
  show "fetch_talukas net c w = ([], w\<lparr>requests := requests w + 3, slept := slept w @ [1000, 2000]\<rparr>)"
    by (rule fetch_talukas_Nil, rule api_call_three_fail)
       (use assms in \<open>simp add: unavailable_def\<close>)
  show "fetch_hoblis net c w = ([], w\<lparr>requests := requests w + 3, slept := slept w @ [1000, 2000]\<rparr>)"
    by (rule fetch_hoblis_Nil, rule api_call_three_fail)
       (use assms in \<open>simp add: unavailable_def\<close>)
  show "fetch_villages net c w = ([], w\<lparr>requests := requests w + 3, slept := slept w @ [1000, 2000]\<rparr>)"
    by (rule fetch_villages_Nil, rule api_call_three_fail)
       (use assms in \<open>simp add: unavailable_def\<close>)
qed

lemma fetch_answers_no_rows:
  assumes "answers_no_rows net (requests w)"
  shows "fetch_districts net w = ([], w\<lparr>requests := requests w + 1\<rparr>)"
    and "fetch_talukas net c w = ([], w\<lparr>requests := requests w + 1\<rparr>)"
    and "fetch_hoblis net c w = ([], w\<lparr>requests := requests w + 1\<rparr>)"
    and "fetch_villages net c w = ([], w\<lparr>requests := requests w + 1\<rparr>)"
proof -
  show "fetch_districts net w = ([], w\<lparr>requests := requests w + 1\<rparr>)"
    by (rule fetch_districts_Nil, rule api_call_first_returns)
       (use assms in \<open>simp_all add: answers_no_rows_def\<close>)
  show "fetch_talukas net c w = ([], w\<lparr>requests := requests w + 1\<rparr>)"
    by (rule fetch_talukas_Nil, rule api_call_first_returns)
       (use assms in \<open>simp_all add: answers_no_rows_def\<close>)
  show "fetch_hoblis net c w = ([], w\<lparr>requests := requests w + 1\<rparr>)"
    by (rule fetch_hoblis_Nil, rule api_call_first_returns)
       (use assms in \<open>simp_all add: answers_no_rows_def\<close>)
  show "fetch_villages net c w = ([], w\<lparr>requests := requests w + 1\<rparr>)"
    by (rule fetch_villages_Nil, rule api_call_first_returns)
       (use assms in \<open>simp_all add: answers_no_rows_def\<close>)
qed

subsection \<open>Total failure of \<^verbatim>\<open>api_call\<close>\<close>

text \<open>
  Claim C10. \<^verbatim>\<open>api_call\<close> has no error branch: \<^verbatim>\<open>except Exception\<close> absorbs whatever
  the round trip raises, so the function returns a list for every endpoint, retry count
  and world. When every attempt of the loop raises, the list is empty. At each of the
  four call sites (\<^verbatim>\<open>fetch_districts\<close>, \<^verbatim>\<open>fetch_talukas\<close>, \<^verbatim>\<open>fetch_hoblis\<close>,
  \<^verbatim>\<open>fetch_villages\<close>) a service that is down and a service that answers with zero rows
  give the caller the same value, the empty list, and leave the same rows in the tables.
\<close>

theorem api_call_total_failure_is_empty:
  assumes "\<forall>i<nat retries. \<exists>e. endpoint (requests w + i) = Raised e"
    and "unavailable down (requests w)"
    and "answers_no_rows up (requests w)"
  shows "fst (api_call endpoint retries w) = [] \<and>
         fst (fetch_districts down w) = [] \<and> fst (fetch_districts up w) = [] \<and>
         same_tables (snd (fetch_districts down w)) (snd (fetch_districts up w)) \<and>
         fst (fetch_talukas down c w) = [] \<and> fst (fetch_talukas up c w) = [] \<and>
         same_tables (snd (fetch_talukas down c w)) (snd (fetch_talukas up c w)) \<and>
         fst (fetch_hoblis down c w) = [] \<and> fst (fetch_hoblis up c w) = [] \<and>
         same_tables (snd (fetch_hoblis down c w)) (snd (fetch_hoblis up c w)) \<and>
         fst (fetch_villages down c w) = [] \<and> fst (fetch_villages up c w) = [] \<and>
         same_tables (snd (fetch_villages down c w)) (snd (fetch_villages up c w))"
proof -
  have "fst (api_call endpoint retries w) = []"
    using api_call_fails[of retries endpoint w] assms(1) by simp
  then show ?thesis
    by (simp add: fetch_unavailable[OF assms(2)] fetch_answers_no_rows[OF assms(3)])
qed

theorem api_call_total_failure_is_empty_witness:
  "unavailable network_down (requests empty_world) \<and>
   answers_no_rows network_no_rows (requests empty_world) \<and>
   fst (api_call (GetDistrictAsync network_down) 3 empty_world) = [] \<and>
   fst (fetch_talukas network_down 7 empty_world) = [] \<and>
   fst (fetch_talukas network_no_rows 7 empty_world) = [] \<and>
   same_tables (snd (fetch_talukas network_down 7 empty_world))
     (snd (fetch_talukas network_no_rows 7 empty_world))"
proof -
  have d: "unavailable network_down (requests empty_world)"
    by (simp add: unavailable_def network_down_def)
  have u: "answers_no_rows network_no_rows (requests empty_world)"
    by (simp add: answers_no_rows_def network_no_rows_def)
  have f: "\<forall>i<nat 3. \<exists>e. GetDistrictAsync network_down (requests empty_world + i) = Raised e"
    by (simp add: network_down_def)
  from api_call_total_failure_is_empty[OF f d u, of 7] d u show ?thesis by simp
qed

subsection \<open>Zero-length responses\<close>

text \<open>
  Claim C4, the counterexample. The service answers the first taluka request for district 7
  with an empty list and would answer the second with one row. \<^verbatim>\<open>fetch_talukas\<close> issues
  one request, does not sleep, returns the empty list and writes nothing: the zero-length
  response is accepted as it is and is not retried.
\<close>

theorem empty_response_is_not_retried:
  "fetch_talukas network_empty_then_row 7 empty_world = ([], empty_world\<lparr>requests := 1\<rparr>) \<and>
   requests (snd (fetch_talukas network_empty_then_row 7 empty_world)) = 1 \<and>
   slept (snd (fetch_talukas network_empty_then_row 7 empty_world)) = [] \<and>
   GetTalukaAsync network_empty_then_row 1 7 \<noteq> Json []"
  by (simp add: fetch_talukas_def api_call_def network_empty_then_row_def network_no_rows_def
        empty_world_def numeral_3_eq_3)

text \<open>
  Claim C4, amended. \<^verbatim>\<open>api_call\<close> retries exceptions only: when the first \<open>k\<close> round trips
  raise and the next one, still within \<^verbatim>\<open>retries\<close>, returns a list, that list is the
  result whatever its length, after \<open>k + 1\<close> requests and sleeps of 1, 2, 4, ... seconds
  between them. A zero-length list is therefore not retried, and the caller
  (\<^verbatim>\<open>fetch_talukas\<close>, with \<^verbatim>\<open>if not data: return []\<close>) returns the empty list and writes
  nothing, as it does after a total failure: the code has no fetch failure that differs
  from an empty child list.
\<close>

theorem api_call_retries_exceptions_only:
  assumes "\<forall>i<k. \<exists>e. endpoint (requests w + i) = Raised e"
    and "endpoint (requests w + k) = Json rows"
    and "int k < retries"
  shows "api_call endpoint retries w =
           (rows, w\<lparr>requests := requests w + k + 1,
                    slept := slept w @ map (\<lambda>i. 1000 * 2 ^ i) [0..<k]\<rparr>) \<and>
         (rows = [] \<and> retries = 3 \<and> endpoint = (\<lambda>i. GetTalukaAsync net i dc) \<longrightarrow>
            fetch_talukas net dc w =
              ([], w\<lparr>requests := requests w + k + 1,
                     slept := slept w @ map (\<lambda>i. 1000 * 2 ^ i) [0..<k]\<rparr>))"
proof -
  have "api_call endpoint retries w =
           (rows, w\<lparr>requests := requests w + k + 1,
                    slept := slept w @ map (\<lambda>i. 1000 * 2 ^ i) [0..<k]\<rparr>)"
    using api_call_returns[of k endpoint w rows retries] assms by simp
  then show ?thesis by (auto simp: fetch_talukas_def)
qed

theorem api_call_retries_exceptions_only_witness:
  "GetTalukaAsync network_timeout_then_empty (requests empty_world + 0) 7 = Raised ''timeout'' \<and>
   GetTalukaAsync network_timeout_then_empty (requests empty_world + 1) 7 = Json [] \<and>
   api_call (\<lambda>i. GetTalukaAsync network_timeout_then_empty i 7) 3 empty_world =
     ([], empty_world\<lparr>requests := 2, slept := [1000]\<rparr>) \<and>
   fetch_talukas network_timeout_then_empty 7 empty_world =
     ([], empty_world\<lparr>requests := 2, slept := [1000]\<rparr>)"
proof -
  let ?endpoint = "\<lambda>i. GetTalukaAsync network_timeout_then_empty i 7"
  have a: "\<forall>i<1. \<exists>e. ?endpoint (requests empty_world + i) = Raised e"
    by (simp add: network_timeout_then_empty_def empty_world_def)
  have b: "?endpoint (requests empty_world + 1) = Json []"
    by (simp add: network_timeout_then_empty_def empty_world_def)
  have c: "int 1 < 3" by simp
  from api_call_retries_exceptions_only[of 1 ?endpoint empty_world "[]" 3
      network_timeout_then_empty 7, OF a b c] b
  show ?thesis
    by (simp add: network_timeout_then_empty_def empty_world_def)
qed

subsection \<open>Referential integrity under the indexer's writes\<close>

lemma keeps_parents_refl [simp]: "keeps_parents w w"
  by (simp add: keeps_parents_def)




lemma same_tables_sym: "same_tables w w' \<Longrightarrow> same_tables w' w"
  by (simp add: same_tables_def)

lemma same_tables_trans: "same_tables w w1 \<Longrightarrow> same_tables w1 w2 \<Longrightarrow> same_tables w w2"
  by (simp add: same_tables_def)







subsection \<open>Referential integrity of \<^verbatim>\<open>build_location_hierarchy\<close>\<close>









lemma integrity_slept [simp]:
  "referential_integrity (w\<lparr>slept := sl\<rparr>) = referential_integrity w"
  "referential_integrity (w\<lparr>requests := r\<rparr>) = referential_integrity w"
  by (simp_all add: referential_integrity_def)

lemma keeps_parents_slept [simp]:
  "keeps_parents w (w'\<lparr>slept := sl\<rparr>) = keeps_parents w w'"
  "keeps_parents (w\<lparr>slept := sl\<rparr>) w' = keeps_parents w w'"
  by (simp_all add: keeps_parents_def)

lemma tables_slept [simp]:
  "tbl_hoblis (w\<lparr>slept := sl\<rparr>) = tbl_hoblis w"
  "tbl_talukas (w\<lparr>slept := sl\<rparr>) = tbl_talukas w"
  "tbl_districts (w\<lparr>slept := sl\<rparr>) = tbl_districts w"
  by simp_all




















subsection \<open>Writes of child rows\<close>




section \<open>Failure semantics of the two crawlers\<close>

lemma build_location_hierarchy_fatal_iff:
  "(build_location_hierarchy net n = Inl e) = (GetDistrictAsync net n = Raised e)"
  by (cases "GetDistrictAsync net n")
     (simp_all add: build_location_hierarchy_def Let_def split: prod.splits)

lemma index_hoblis_skip:
  assumes "\<And>i. i < 3 \<Longrightarrow> \<exists>e. GetVillageAsync net (requests w + i) (code h) = Raised e"
  shows "index_hoblis net (h # hs) s w =
           (case index_hoblis net hs s
                   (w\<lparr>requests := requests w + 3, slept := slept w @ [1000, 2000, 200]\<rparr>) of
              (hdata, s', w') \<Rightarrow> ((code h, name h, []) # hdata, s', w'))"
proof -
  have "fetch_villages net (code h) w =
          ([], w\<lparr>requests := requests w + 3, slept := slept w @ [1000, 2000]\<rparr>)"
    by (rule fetch_villages_Nil, rule api_call_three_fail) (use assms in simp)
  then show ?thesis by simp
qed

lemma index_talukas_skip:
  assumes "\<And>i. i < 3 \<Longrightarrow> \<exists>e. GetHobliAsync net (requests w + i) (code t) = Raised e"
  shows "index_talukas net (t # ts) s w =
           (case index_talukas net ts s
                   (w\<lparr>requests := requests w + 3, slept := slept w @ [1000, 2000]\<rparr>) of
              (tdata, s', w') \<Rightarrow> ((code t, name t, []) # tdata, s', w'))"
proof -
  have "fetch_hoblis net (code t) w =
          ([], w\<lparr>requests := requests w + 3, slept := slept w @ [1000, 2000]\<rparr>)"
    by (rule fetch_hoblis_Nil, rule api_call_three_fail) (use assms in simp)
  then show ?thesis by simp
qed

lemma index_districts_skip:
  assumes "\<And>i. i < 3 \<Longrightarrow> \<exists>e. GetTalukaAsync net (requests w + i) (code d) = Raised e"
  shows "index_districts net (d # ds) s w =
           (case index_districts net ds s
                   (w\<lparr>requests := requests w + 3, slept := slept w @ [1000, 2000]\<rparr>) of
              (ddata, s', w') \<Rightarrow> ((code d, name d, []) # ddata, s', w'))"
proof -
  have "fetch_talukas net (code d) w =
          ([], w\<lparr>requests := requests w + 3, slept := slept w @ [1000, 2000]\<rparr>)"
    by (rule fetch_talukas_Nil, rule api_call_three_fail) (use assms in simp)
  then show ?thesis by simp
qed

lemma index_all_root_down:
  assumes "\<And>i. i < 3 \<Longrightarrow> \<exists>e. GetDistrictAsync net (requests w + i) = Raised e"
  shows "index_all specific_district now_db now_json net w =
           (\<lparr>districts = 0, talukas = 0, hoblis = 0, villages = 0\<rparr>,
            w\<lparr>requests := requests w + 3, slept := slept w @ [1000, 2000],
              tbl_metadata := (tbl_metadata w)
                (''last_updated'' \<mapsto> MetaText now_db,
                 ''stats'' \<mapsto> MetaStats \<lparr>districts = 0, talukas = 0, hoblis = 0, villages = 0\<rparr>),
              json_export := Some (now_json,
                 \<lparr>districts = 0, talukas = 0, hoblis = 0, villages = 0\<rparr>, [])\<rparr>)"
proof -
  have "fetch_districts net w =
          ([], w\<lparr>requests := requests w + 3, slept := slept w @ [1000, 2000]\<rparr>)"
    by (rule fetch_districts_Nil, rule api_call_three_fail) (use assms in simp)
  then show ?thesis by (simp add: index_all_def)
qed

text \<open>
  Claim C8, the counterexample. The service is down for every request. \<^verbatim>\<open>index_all\<close> does
  not stop: after the three failed attempts of the districts call it returns the statistics
  of a crawl with zero districts, having written them to the metadata table and exported an
  empty hierarchy, and it ends exactly as it does for a service that has no district.
\<close>

theorem index_all_survives_root_failure:
  "fst (index_all None ''t1'' ''t2'' network_down empty_world) =
     \<lparr>districts = 0, talukas = 0, hoblis = 0, villages = 0\<rparr> \<and>
   json_export (snd (index_all None ''t1'' ''t2'' network_down empty_world)) =
     Some (''t2'', \<lparr>districts = 0, talukas = 0, hoblis = 0, villages = 0\<rparr>, []) \<and>
   tbl_metadata (snd (index_all None ''t1'' ''t2'' network_down empty_world)) ''stats'' =
     Some (MetaStats \<lparr>districts = 0, talukas = 0, hoblis = 0, villages = 0\<rparr>) \<and>
   fst (index_all None ''t1'' ''t2'' network_no_rows empty_world) =
     fst (index_all None ''t1'' ''t2'' network_down empty_world) \<and>
   json_export (snd (index_all None ''t1'' ''t2'' network_no_rows empty_world)) =
     json_export (snd (index_all None ''t1'' ''t2'' network_down empty_world))"
proof -
  have down: "index_all None ''t1'' ''t2'' network_down empty_world =
           (\<lparr>districts = 0, talukas = 0, hoblis = 0, villages = 0\<rparr>,
            empty_world\<lparr>requests := requests empty_world + 3,
              slept := slept empty_world @ [1000, 2000],
              tbl_metadata := (tbl_metadata empty_world)
                (''last_updated'' \<mapsto> MetaText ''t1'',
                 ''stats'' \<mapsto> MetaStats \<lparr>districts = 0, talukas = 0, hoblis = 0, villages = 0\<rparr>),
              json_export := Some (''t2'',
                 \<lparr>districts = 0, talukas = 0, hoblis = 0, villages = 0\<rparr>, [])\<rparr>)"
    by (rule index_all_root_down) (simp add: network_down_def)
  have "fetch_districts network_no_rows empty_world =
          ([], empty_world\<lparr>requests := requests empty_world + 1\<rparr>)"
    by (rule fetch_districts_Nil, rule api_call_first_returns)
       (simp_all add: network_no_rows_def)
  then have up: "index_all None ''t1'' ''t2'' network_no_rows empty_world =
           (\<lparr>districts = 0, talukas = 0, hoblis = 0, villages = 0\<rparr>,
            empty_world\<lparr>requests := requests empty_world + 1,
              tbl_metadata := (tbl_metadata empty_world)
                (''last_updated'' \<mapsto> MetaText ''t1'',
                 ''stats'' \<mapsto> MetaStats \<lparr>districts = 0, talukas = 0, hoblis = 0, villages = 0\<rparr>),
              json_export := Some (''t2'',
                 \<lparr>districts = 0, talukas = 0, hoblis = 0, villages = 0\<rparr>, [])\<rparr>)"
    by (simp add: index_all_def truthy_def)
  show ?thesis unfolding down up by simp
qed

text \<open>
  Claim C8, amended. In both crawlers the failure of a fetch below the root skips that
  subtree only: \<^verbatim>\<open>build_location_hierarchy\<close> goes on with the next district, taluka or
  hobli, and \<^verbatim>\<open>index_all\<close> records the node with no children and goes on with its next
  sibling. The failure of the districts call is fatal in \<^verbatim>\<open>build_location_hierarchy\<close>,
  and only there: that function fails if and only if the districts request raises. In
  \<^verbatim>\<open>index_all\<close> it is not fatal: the crawl completes with all counts zero, writes the
  metadata and exports an empty hierarchy.
\<close>

theorem crawl_failure_semantics:
  "((build_location_hierarchy net n = Inl e) = (GetDistrictAsync net n = Raised e)) \<and>
   (ad_districtCode d \<noteq> 0 \<and> GetTalukaAsync net n (ad_districtCode d) = Raised e \<longrightarrow>
      fetch_all_talukas net (d # ds) n tacc = fetch_all_talukas net ds (n + 1) tacc) \<and>
   (at_talukCode (fst t) \<noteq> 0 \<and> GetHobliAsync net n (at_talukCode (fst t)) = Raised e \<longrightarrow>
      fetch_all_hoblis net (t # ts) n hacc = fetch_all_hoblis net ts (n + 1) hacc) \<and>
   (ah_hoblicode (fst h) \<noteq> 0 \<and> GetVillageAsync net n (ah_hoblicode (fst h)) = Raised e \<longrightarrow>
      fetch_all_villages net (h # hs) n vacc = fetch_all_villages net hs (n + 1) vacc) \<and>
   ((\<forall>i<3. \<exists>e. GetTalukaAsync net (requests w + i) (code dn) = Raised e) \<longrightarrow>
      index_districts net (dn # dns) s w =
        (case index_districts net dns s
                (w\<lparr>requests := requests w + 3, slept := slept w @ [1000, 2000]\<rparr>) of
           (ddata, s', w') \<Rightarrow> ((code dn, name dn, []) # ddata, s', w'))) \<and>
   ((\<forall>i<3. \<exists>e. GetHobliAsync net (requests w + i) (code tn) = Raised e) \<longrightarrow>
      index_talukas net (tn # tns) s w =
        (case index_talukas net tns s
                (w\<lparr>requests := requests w + 3, slept := slept w @ [1000, 2000]\<rparr>) of
           (tdata, s', w') \<Rightarrow> ((code tn, name tn, []) # tdata, s', w'))) \<and>
   ((\<forall>i<3. \<exists>e. GetVillageAsync net (requests w + i) (code hn) = Raised e) \<longrightarrow>
      index_hoblis net (hn # hns) s w =
        (case index_hoblis net hns s
                (w\<lparr>requests := requests w + 3, slept := slept w @ [1000, 2000, 200]\<rparr>) of
           (hdata, s', w') \<Rightarrow> ((code hn, name hn, []) # hdata, s', w'))) \<and>
   ((\<forall>i<3. \<exists>e. GetDistrictAsync net (requests w + i) = Raised e) \<longrightarrow>
      index_all specific_district now_db now_json net w =
           (\<lparr>districts = 0, talukas = 0, hoblis = 0, villages = 0\<rparr>,
            w\<lparr>requests := requests w + 3, slept := slept w @ [1000, 2000],
              tbl_metadata := (tbl_metadata w)
                (''last_updated'' \<mapsto> MetaText now_db,
                 ''stats'' \<mapsto> MetaStats \<lparr>districts = 0, talukas = 0, hoblis = 0, villages = 0\<rparr>),
              json_export := Some (now_json,
                 \<lparr>districts = 0, talukas = 0, hoblis = 0, villages = 0\<rparr>, [])\<rparr>))"
proof (intro conjI impI)
  show "(build_location_hierarchy net n = Inl e) = (GetDistrictAsync net n = Raised e)"
    by (rule build_location_hierarchy_fatal_iff)
next
  assume "ad_districtCode d \<noteq> 0 \<and> GetTalukaAsync net n (ad_districtCode d) = Raised e"
  then show "fetch_all_talukas net (d # ds) n tacc = fetch_all_talukas net ds (n + 1) tacc"
    by simp
next
  assume "at_talukCode (fst t) \<noteq> 0 \<and> GetHobliAsync net n (at_talukCode (fst t)) = Raised e"
  then show "fetch_all_hoblis net (t # ts) n hacc = fetch_all_hoblis net ts (n + 1) hacc"
    by simp
next
  assume "ah_hoblicode (fst h) \<noteq> 0 \<and> GetVillageAsync net n (ah_hoblicode (fst h)) = Raised e"
  then show "fetch_all_villages net (h # hs) n vacc = fetch_all_villages net hs (n + 1) vacc"
    by simp
next
  assume "\<forall>i<3. \<exists>e. GetTalukaAsync net (requests w + i) (code dn) = Raised e"
  then show "index_districts net (dn # dns) s w =
        (case index_districts net dns s
                (w\<lparr>requests := requests w + 3, slept := slept w @ [1000, 2000]\<rparr>) of
           (ddata, s', w') \<Rightarrow> ((code dn, name dn, []) # ddata, s', w'))"
    by (intro index_districts_skip) simp
next
  assume "\<forall>i<3. \<exists>e. GetHobliAsync net (requests w + i) (code tn) = Raised e"
  then show "index_talukas net (tn # tns) s w =
        (case index_talukas net tns s
                (w\<lparr>requests := requests w + 3, slept := slept w @ [1000, 2000]\<rparr>) of
           (tdata, s', w') \<Rightarrow> ((code tn, name tn, []) # tdata, s', w'))"
    by (intro index_talukas_skip) simp
next
  assume "\<forall>i<3. \<exists>e. GetVillageAsync net (requests w + i) (code hn) = Raised e"
  then show "index_hoblis net (hn # hns) s w =
        (case index_hoblis net hns s
                (w\<lparr>requests := requests w + 3, slept := slept w @ [1000, 2000, 200]\<rparr>) of
           (hdata, s', w') \<Rightarrow> ((code hn, name hn, []) # hdata, s', w'))"
    by (intro index_hoblis_skip) simp
next
  assume "\<forall>i<3. \<exists>e. GetDistrictAsync net (requests w + i) = Raised e"
  then show "index_all specific_district now_db now_json net w =
           (\<lparr>districts = 0, talukas = 0, hoblis = 0, villages = 0\<rparr>,
            w\<lparr>requests := requests w + 3, slept := slept w @ [1000, 2000],
              tbl_metadata := (tbl_metadata w)
                (''last_updated'' \<mapsto> MetaText now_db,
                 ''stats'' \<mapsto> MetaStats \<lparr>districts = 0, talukas = 0, hoblis = 0, villages = 0\<rparr>),
              json_export := Some (now_json,
                 \<lparr>districts = 0, talukas = 0, hoblis = 0, villages = 0\<rparr>, [])\<rparr>)"
    by (intro index_all_root_down) simp
qed

theorem crawl_failure_semantics_witness:
  "build_location_hierarchy network_down 0 = Inl ''timeout'' \<and>
   fetch_all_talukas network_partial
     [\<lparr>ad_districtCode = 10, ad_districtNamee = ''D'', ad_districtNamek = ''D'',
       ad_bhoomiDistrictCode = ''1''\<rparr>,
      \<lparr>ad_districtCode = 11, ad_districtNamee = ''E'', ad_districtNamek = ''E'',
       ad_bhoomiDistrictCode = ''2''\<rparr>] 2 [] =
     ([(\<lparr>at_talukCode = 21, at_talukNamee = ''U'', at_talukNamek = ''U'', at_unit = ''''\<rparr>, 11)], 4) \<and>
   index_districts network_down
     [\<lparr>code = 10, name = ''D'', name_kn = ''D'', bhoomi_code = ''1''\<rparr>]
     \<lparr>districts = 1, talukas = 0, hoblis = 0, villages = 0\<rparr> empty_world =
     ([(10, ''D'', [])], \<lparr>districts = 1, talukas = 0, hoblis = 0, villages = 0\<rparr>,
      empty_world\<lparr>requests := 3, slept := [1000, 2000]\<rparr>) \<and>
   fst (index_all None ''t1'' ''t2'' network_down empty_world) =
     \<lparr>districts = 0, talukas = 0, hoblis = 0, villages = 0\<rparr>"
proof -
  let ?d10 = "\<lparr>ad_districtCode = 10, ad_districtNamee = ''D'', ad_districtNamek = ''D'',
       ad_bhoomiDistrictCode = ''1''\<rparr>"
  let ?d11 = "\<lparr>ad_districtCode = 11, ad_districtNamee = ''E'', ad_districtNamek = ''E'',
       ad_bhoomiDistrictCode = ''2''\<rparr>"
  let ?n10 = "\<lparr>code = 10, name = ''D'', name_kn = ''D'', bhoomi_code = ''1''\<rparr>"
  let ?s = "\<lparr>districts = 1, talukas = 0, hoblis = 0, villages = 0\<rparr>"
  have down3: "\<forall>i<3. \<exists>e. GetTalukaAsync network_down (requests empty_world + i) (code ?n10) = Raised e"
    "\<forall>i<3. \<exists>e. GetDistrictAsync network_down (requests empty_world + i) = Raised e"
    by (simp_all add: network_down_def)
  have root: "GetDistrictAsync network_down 0 = Raised ''timeout''"
    by (simp add: network_down_def)
  have sub: "ad_districtCode ?d10 \<noteq> 0 \<and>
      GetTalukaAsync network_partial 2 (ad_districtCode ?d10) = Raised ''503''"
    by (simp add: network_partial_def network_no_rows_def)
  note a = crawl_failure_semantics[of network_down 0 "''timeout''" ?d10 "[]" "[]" _ "[]" "[]" _ "[]" "[]"
      empty_world ?n10 "[]" ?s _ "[]" _ "[]" None "''t1''" "''t2''"]
  note b = crawl_failure_semantics[of network_partial 2 "''503''" ?d10 "[?d11]" "[]" _ "[]" "[]" _ "[]" "[]"
      empty_world ?n10 "[]" ?s _ "[]" _ "[]" None "''t1''" "''t2''"]
  have 1: "build_location_hierarchy network_down 0 = Inl ''timeout''"
    using a root by blast
  have 2: "fetch_all_talukas network_partial [?d10, ?d11] 2 [] =
             fetch_all_talukas network_partial [?d11] (2 + 1) []"
    using b sub by blast
  have 3: "index_districts network_down [?n10] ?s empty_world =
        (case index_districts network_down [] ?s
                (empty_world\<lparr>requests := requests empty_world + 3,
                   slept := slept empty_world @ [1000, 2000]\<rparr>) of
           (ddata, s', w') \<Rightarrow> ((code ?n10, name ?n10, []) # ddata, s', w'))"
    using a down3(1) by blast
  have 4: "index_all None ''t1'' ''t2'' network_down empty_world =
           (\<lparr>districts = 0, talukas = 0, hoblis = 0, villages = 0\<rparr>,
            empty_world\<lparr>requests := requests empty_world + 3,
              slept := slept empty_world @ [1000, 2000],
              tbl_metadata := (tbl_metadata empty_world)
                (''last_updated'' \<mapsto> MetaText ''t1'',
                 ''stats'' \<mapsto> MetaStats \<lparr>districts = 0, talukas = 0, hoblis = 0, villages = 0\<rparr>),
              json_export := Some (''t2'',
                 \<lparr>districts = 0, talukas = 0, hoblis = 0, villages = 0\<rparr>, [])\<rparr>)"
    using a down3(2) by blast
  show ?thesis unfolding 1 2 3 4
    by (simp add: network_partial_def network_no_rows_def empty_world_def)
qed

section \<open>The combination expander\<close>

subsection \<open>The deduplication loop\<close>

lemma unique_loop_append:
  "unique_loop combos seen (acc @ rest) = acc @ unique_loop combos seen rest"
  by (induction combos arbitrary: seen rest) simp_all

lemma unique_loop_Cons:
  "unique_loop (c # combos) seen [] =
     (if combo_key c \<notin> seen then c # unique_loop combos (insert (combo_key c) seen) []
      else unique_loop combos seen [])"
  using unique_loop_append[of combos "insert (combo_key c) seen" "[c]" "[]"] by simp

lemma unique_loop_keys:
  "combo_key ` set (unique_loop combos seen []) = combo_key ` set combos - seen"
proof (induction combos arbitrary: seen)
  case Nil
  then show ?case by simp
next
  case (Cons c combos)
  show ?case unfolding unique_loop_Cons using Cons.IH by auto
qed

lemma unique_loop_distinct: "distinct (map combo_key (unique_loop combos seen []))"
proof (induction combos arbitrary: seen)
  case Nil
  then show ?case by simp
next
  case (Cons c combos)
  show ?case unfolding unique_loop_Cons
    using Cons.IH unique_loop_keys[of combos "insert (combo_key c) seen"] by auto
qed

lemma unique_loop_subseq: "subseq (unique_loop combos seen []) combos"
proof (induction combos arbitrary: seen)
  case Nil
  then show ?case by simp
next
  case (Cons c combos)
  show ?case unfolding unique_loop_Cons using Cons.IH by auto
qed

lemma unique_loop_first:
  "c \<in> set (unique_loop combos seen []) \<Longrightarrow>
     find (\<lambda>x. combo_key x = combo_key c) combos = Some c"
proof (induction combos arbitrary: seen)
  case Nil
  then show ?case by simp
next
  case (Cons x combos)
  show ?case
  proof (cases "combo_key x \<notin> seen")
    case True
    with Cons.prems have "c = x \<or> c \<in> set (unique_loop combos (insert (combo_key x) seen) [])"
      by (simp add: unique_loop_Cons del: unique_loop.simps)
    then show ?thesis
    proof
      assume "c = x"
      then show ?thesis by simp
    next
      assume in_rest: "c \<in> set (unique_loop combos (insert (combo_key x) seen) [])"
      then have "combo_key c \<in> combo_key ` set combos - insert (combo_key x) seen"
        using unique_loop_keys[of combos "insert (combo_key x) seen"] by blast
      then have "combo_key x \<noteq> combo_key c" by auto
      with Cons.IH[OF in_rest] show ?thesis by simp
    qed
  next
    case False
    with Cons.prems have in_rest: "c \<in> set (unique_loop combos seen [])"
      by (simp add: unique_loop_Cons del: unique_loop.simps)
    then have "combo_key c \<in> combo_key ` set combos - seen"
      using unique_loop_keys[of combos seen] by blast
    with False have "combo_key x \<noteq> combo_key c" by auto
    with Cons.IH[OF in_rest] show ?thesis by simp
  qed
qed

lemma unique_loop_length: "length (unique_loop combos seen []) \<le> length combos"
  using unique_loop_subseq[of combos seen] by (rule list_emb_length)

text \<open>
  Claim C2. For every store and filter, with \<^verbatim>\<open>combos\<close> the candidate list of the four
  nested loops: the returned list holds no two entries with the same four codes; it is a
  subsequence of \<^verbatim>\<open>combos\<close> (the order is kept); every four-tuple of codes of \<^verbatim>\<open>combos\<close>
  is in it; each of its entries is the first entry of \<^verbatim>\<open>combos\<close> with its four codes;
  and the number of entries removed is what the log message reports, a message being
  written whenever that number is positive.
\<close>

theorem build_location_combinations_deduplicated:
  "distinct (map combo_key (fst (build_location_combinations repo cfg))) \<and>
   subseq (fst (build_location_combinations repo cfg)) (candidate_combos repo cfg) \<and>
   combo_key ` set (fst (build_location_combinations repo cfg)) =
     combo_key ` set (candidate_combos repo cfg) \<and>
   (\<forall>c \<in> set (fst (build_location_combinations repo cfg)).
      find (\<lambda>x. combo_key x = combo_key c) (candidate_combos repo cfg) = Some c) \<and>
   length (fst (build_location_combinations repo cfg)) \<le> length (candidate_combos repo cfg) \<and>
   snd (build_location_combinations repo cfg) =
     (if 0 < length (candidate_combos repo cfg) - length (fst (build_location_combinations repo cfg))
      then Some (length (candidate_combos repo cfg) -
                 length (fst (build_location_combinations repo cfg)))
      else None)"
proof -
  have out: "fst (build_location_combinations repo cfg) =
               unique_loop (candidate_combos repo cfg) {} []"
    by (simp add: build_location_combinations_def Let_def)
  have log: "snd (build_location_combinations repo cfg) =
     (if length (unique_loop (candidate_combos repo cfg) {} []) < length (candidate_combos repo cfg)
      then Some (length (candidate_combos repo cfg) -
                 length (unique_loop (candidate_combos repo cfg) {} []))
      else None)"
    by (simp add: build_location_combinations_def Let_def)
  show ?thesis unfolding out log
    using unique_loop_distinct[of "candidate_combos repo cfg" "{}"]
      unique_loop_subseq[of "candidate_combos repo cfg" "{}"]
      unique_loop_keys[of "candidate_combos repo cfg" "{}"]
      unique_loop_first[of _ "candidate_combos repo cfg" "{}"]
      unique_loop_length[of "candidate_combos repo cfg" "{}"]
    by simp
qed

lemma candidates_repeated_village:
  "candidate_combos repo_repeated_village cfg_all =
     [(10, 20, 30, 40, ''D'', ''T'', ''H'', ''V''), (10, 20, 30, 41, ''D'', ''T'', ''H'', ''W''),
      (10, 20, 30, 40, ''D'', ''T'', ''H'', ''V2'')]"
  by (simp add: candidate_combos_def district_rows_for_def taluka_rows_for_def
        hobli_rows_for_def village_rows_for_def repo_districts_def repo_talukas_def
        repo_hoblis_def repo_villages_def repo_children_def truthy_def
        repo_repeated_village_def cfg_all_def)

theorem build_location_combinations_deduplicated_witness:
  "build_location_combinations repo_repeated_village cfg_all =
     ([(10, 20, 30, 40, ''D'', ''T'', ''H'', ''V''), (10, 20, 30, 41, ''D'', ''T'', ''H'', ''W'')],
      Some 1) \<and>
   distinct (map combo_key (fst (build_location_combinations repo_repeated_village cfg_all))) \<and>
   find (\<lambda>x. combo_key x = (10, 20, 30, 40)) (candidate_combos repo_repeated_village cfg_all) =
     Some (10, 20, 30, 40, ''D'', ''T'', ''H'', ''V'')"
proof -
  have run: "build_location_combinations repo_repeated_village cfg_all =
     ([(10, 20, 30, 40, ''D'', ''T'', ''H'', ''V''), (10, 20, 30, 41, ''D'', ''T'', ''H'', ''W'')],
      Some 1)"
    by (simp add: build_location_combinations_def Let_def candidates_repeated_village
          combo_key_def)
  have mem: "(10, 20, 30, 40, ''D'', ''T'', ''H'', ''V'') \<in>
               set (fst (build_location_combinations repo_repeated_village cfg_all))"
    unfolding run by simp
  have key: "combo_key (10, 20, 30, 40, ''D'', ''T'', ''H'', ''V'') = (10, 20, 30, 40)"
    by (simp add: combo_key_def)
  note t = build_location_combinations_deduplicated[of repo_repeated_village cfg_all]
  from t have d: "distinct (map combo_key (fst (build_location_combinations repo_repeated_village cfg_all)))"
    by blast
  from t have "\<forall>c \<in> set (fst (build_location_combinations repo_repeated_village cfg_all)).
      find (\<lambda>x. combo_key x = combo_key c) (candidate_combos repo_repeated_village cfg_all) = Some c"
    by blast
  with mem have f: "find (\<lambda>x. combo_key x = combo_key (10, 20, 30, 40, ''D'', ''T'', ''H'', ''V''))
      (candidate_combos repo_repeated_village cfg_all) = Some (10, 20, 30, 40, ''D'', ''T'', ''H'', ''V'')"
    by blast
  show ?thesis using run d f unfolding key by blast
qed

subsection \<open>The district filter\<close>

lemma in_set_concat_map: "c \<in> set (concat (map f xs)) \<longleftrightarrow> (\<exists>x \<in> set xs. c \<in> set (f x))"
  by auto

lemma in_set_map: "c \<in> set (map g xs) \<longleftrightarrow> (\<exists>x \<in> set xs. c = g x)"
  by auto

lemma candidate_combos_mem:
  "c \<in> set (candidate_combos repo cfg) \<longleftrightarrow>
     (\<exists>d \<in> set (district_rows_for repo cfg). \<exists>t \<in> set (taluka_rows_for repo cfg (fst d)).
      \<exists>h \<in> set (hobli_rows_for repo cfg (fst t)). \<exists>v \<in> set (village_rows_for repo cfg (fst h)).
        c = (fst d, fst t, fst h, fst v, snd d, fst (snd t), fst (snd h), fst (snd v)))"
  by (simp only: candidate_combos_def case_prod_beta in_set_concat_map in_set_map)

lemma build_location_combinations_keys:
  "combo_key ` set (fst (build_location_combinations repo cfg)) =
     combo_key ` set (candidate_combos repo cfg)"
  by (simp add: build_location_combinations_def Let_def unique_loop_keys)

lemma build_location_combinations_subset:
  "set (fst (build_location_combinations repo cfg)) \<subseteq> set (candidate_combos repo cfg)"
  using unique_loop_subseq[of "candidate_combos repo cfg" "{}"]
  by (auto simp: build_location_combinations_def Let_def dest: list_emb_set)

text \<open>The rows a loop runs over are rows of the store, children of the code asked for unless it is 0.\<close>

lemma district_rows_for_rows:
  "d \<in> set (district_rows_for repo cfg) \<Longrightarrow> d \<in> set (district_rows repo) \<and> 0 < fst d"
  by (auto simp: district_rows_for_def repo_districts_def split: if_splits)

lemma repo_children_rows:
  "r \<in> set (repo_children rows (Some parent_code)) \<Longrightarrow>
     r \<in> set rows \<and> (parent_code \<noteq> 0 \<longrightarrow> snd (snd r) = parent_code)"
  by (auto simp: repo_children_def truthy_def split: if_splits)

lemma taluka_rows_for_rows:
  "t \<in> set (taluka_rows_for repo cfg d_code) \<Longrightarrow>
     t \<in> set (taluka_rows repo) \<and> (d_code \<noteq> 0 \<longrightarrow> snd (snd t) = d_code)"
  using repo_children_rows[of t "taluka_rows repo" d_code]
  by (auto simp: taluka_rows_for_def repo_talukas_def split: if_splits)

lemma hobli_rows_for_rows:
  "h \<in> set (hobli_rows_for repo cfg t_code) \<Longrightarrow>
     h \<in> set (hobli_rows repo) \<and> (t_code \<noteq> 0 \<longrightarrow> snd (snd h) = t_code)"
  using repo_children_rows[of h "hobli_rows repo" t_code]
  by (auto simp: hobli_rows_for_def repo_hoblis_def split: if_splits)

lemma village_rows_for_rows:
  "v \<in> set (village_rows_for repo cfg h_code) \<Longrightarrow>
     v \<in> set (village_rows repo) \<and> (h_code \<noteq> 0 \<longrightarrow> snd (snd v) = h_code)"
  using repo_children_rows[of v "village_rows repo" h_code]
  by (auto simp: village_rows_for_def repo_villages_def split: if_splits)

lemma candidate_combos_chain:
  assumes "(d, t, h, v, dn, tn, hn, vn) \<in> set (candidate_combos repo cfg)"
  shows "0 < d \<and> (d, dn) \<in> set (district_rows repo) \<and> (t, tn, d) \<in> set (taluka_rows repo) \<and>
         (\<exists>p. (h, hn, p) \<in> set (hobli_rows repo) \<and> (t \<noteq> 0 \<longrightarrow> p = t)) \<and>
         (\<exists>q. (v, vn, q) \<in> set (village_rows repo) \<and> (h \<noteq> 0 \<longrightarrow> q = h))"
proof -
  from assms obtain dr tr hr vr where
    dr: "dr \<in> set (district_rows_for repo cfg)" and
    tr: "tr \<in> set (taluka_rows_for repo cfg (fst dr))" and
    hr: "hr \<in> set (hobli_rows_for repo cfg (fst tr))" and
    vr: "vr \<in> set (village_rows_for repo cfg (fst hr))" and
    c: "(d, t, h, v, dn, tn, hn, vn) =
          (fst dr, fst tr, fst hr, fst vr, snd dr, fst (snd tr), fst (snd hr), fst (snd vr))"
    unfolding candidate_combos_mem by blast
  from c have e: "d = fst dr" "t = fst tr" "h = fst hr" "v = fst vr" "dn = snd dr"
    "tn = fst (snd tr)" "hn = fst (snd hr)" "vn = fst (snd vr)"
    by simp_all
  from district_rows_for_rows[OF dr] have d1: "dr \<in> set (district_rows repo)" "0 < fst dr"
    by simp_all
  from taluka_rows_for_rows[OF tr] d1(2) have t1: "tr \<in> set (taluka_rows repo)"
    "snd (snd tr) = fst dr"
    by simp_all
  from hobli_rows_for_rows[OF hr] have h1: "hr \<in> set (hobli_rows repo)"
    "fst tr \<noteq> 0 \<longrightarrow> snd (snd hr) = fst tr"
    by simp_all
  from village_rows_for_rows[OF vr] have v1: "vr \<in> set (village_rows repo)"
    "fst hr \<noteq> 0 \<longrightarrow> snd (snd vr) = fst hr"
    by simp_all
  have a: "0 < d" using d1(2) e(1) by simp
  have b: "(d, dn) \<in> set (district_rows repo)" using d1(1) unfolding e by simp
  have "(t, tn, d) = tr" unfolding e using t1(2) by (cases tr) auto
  with t1(1) have f: "(t, tn, d) \<in> set (taluka_rows repo)" by simp
  have "(h, hn, snd (snd hr)) = hr" unfolding e by (cases hr) auto
  with h1 have g: "\<exists>p. (h, hn, p) \<in> set (hobli_rows repo) \<and> (t \<noteq> 0 \<longrightarrow> p = t)"
    unfolding e by metis
  have "(v, vn, snd (snd vr)) = vr" unfolding e by (cases vr) auto
  with v1 have i: "\<exists>q. (v, vn, q) \<in> set (village_rows repo) \<and> (h \<noteq> 0 \<longrightarrow> q = h)"
    unfolding e by metis
  from a b f g i show ?thesis by blast
qed

text \<open>
  Claim C6, the counterexample. The store holds districts 10 and 11, each with one village
  below it, and the filter names no district. \<^verbatim>\<open>build_location_combinations\<close> does not
  fail: it returns the villages of both districts, that is, of every district of the store.
\<close>

theorem expansion_without_district_spans_all_districts:
  "cfg_district_code cfg_all = None \<and>
   map fst (repo_districts repo_two_districts) = [10, 11] \<and>
   fst (build_location_combinations repo_two_districts cfg_all) =
     [(10, 20, 30, 40, ''D'', ''T'', ''H'', ''V''), (11, 21, 31, 41, ''E'', ''U'', ''I'', ''W'')]"
proof -
  have "candidate_combos repo_two_districts cfg_all =
     [(10, 20, 30, 40, ''D'', ''T'', ''H'', ''V''), (11, 21, 31, 41, ''E'', ''U'', ''I'', ''W'')]"
    by (simp add: candidate_combos_def district_rows_for_def taluka_rows_for_def
        hobli_rows_for_def village_rows_for_def repo_districts_def repo_talukas_def
        repo_hoblis_def repo_villages_def repo_children_def truthy_def
        repo_two_districts_def cfg_all_def)
  then show ?thesis
    by (simp add: build_location_combinations_def Let_def combo_key_def cfg_all_def
          repo_districts_def repo_two_districts_def)
qed

text \<open>
  Claim C6, amended. The district constraint is optional and the expander has no error
  result. When the filter gives a district code (other than 0), every target it returns
  carries that district code. Whatever the filter, a target names a stored district with a
  positive code and a taluka row of that district; its hobli row is a row of that taluka
  unless the taluka's code is 0, and its village row a row of that hobli unless the hobli's
  code is 0: for a parent code 0 \<^verbatim>\<open>LocationRepo\<close> applies no \<^verbatim>\<open>WHERE\<close> clause and reads
  the whole table, so the rows below need not belong to the district. When the filter gives
  no district (\<^verbatim>\<open>None\<close> or 0), the expansion runs over every district of the store with a
  positive code: each village reached from such a district through the rows the taluka,
  hobli and village filters select is among the targets.
\<close>

theorem district_filter_is_optional:
  "(truthy (cfg_district_code cfg) \<longrightarrow>
      (\<forall>c \<in> set (fst (build_location_combinations repo cfg)).
         Some (fst c) = cfg_district_code cfg)) \<and>
   (\<forall>c \<in> set (fst (build_location_combinations repo cfg)).
      case c of (d, t, h, v, dn, tn, hn, vn) \<Rightarrow>
        0 < d \<and> (d, dn) \<in> set (district_rows repo) \<and> (t, tn, d) \<in> set (taluka_rows repo) \<and>
        (\<exists>p. (h, hn, p) \<in> set (hobli_rows repo) \<and> (t \<noteq> 0 \<longrightarrow> p = t)) \<and>
        (\<exists>q. (v, vn, q) \<in> set (village_rows repo) \<and> (h \<noteq> 0 \<longrightarrow> q = h))) \<and>
   (\<not> truthy (cfg_district_code cfg) \<longrightarrow>
      (\<forall>d \<in> set (repo_districts repo). \<forall>t \<in> set (taluka_rows_for repo cfg (fst d)).
       \<forall>h \<in> set (hobli_rows_for repo cfg (fst t)). \<forall>v \<in> set (village_rows_for repo cfg (fst h)).
         (fst d, fst t, fst h, fst v) \<in>
            combo_key ` set (fst (build_location_combinations repo cfg))))"
proof (intro conjI impI ballI)
  fix c
  assume given: "truthy (cfg_district_code cfg)"
    and "c \<in> set (fst (build_location_combinations repo cfg))"
  then have "c \<in> set (candidate_combos repo cfg)"
    using build_location_combinations_subset by blast
  then obtain d where "d \<in> set (district_rows_for repo cfg)" "fst c = fst d"
    unfolding candidate_combos_mem by fastforce
  with given show "Some (fst c) = cfg_district_code cfg"
    by (simp add: district_rows_for_def)
next
  fix c
  assume "c \<in> set (fst (build_location_combinations repo cfg))"
  then have m: "c \<in> set (candidate_combos repo cfg)"
    using build_location_combinations_subset by blast
  obtain d t h v dn tn hn vn where c: "c = (d, t, h, v, dn, tn, hn, vn)"
    by (cases c) auto
  from candidate_combos_chain[OF m[unfolded c]]
  show "case c of (d, t, h, v, dn, tn, hn, vn) \<Rightarrow>
        0 < d \<and> (d, dn) \<in> set (district_rows repo) \<and> (t, tn, d) \<in> set (taluka_rows repo) \<and>
        (\<exists>p. (h, hn, p) \<in> set (hobli_rows repo) \<and> (t \<noteq> 0 \<longrightarrow> p = t)) \<and>
        (\<exists>q. (v, vn, q) \<in> set (village_rows repo) \<and> (h \<noteq> 0 \<longrightarrow> q = h))"
    unfolding c by simp
next
  fix d t h v
  assume "\<not> truthy (cfg_district_code cfg)"
    and "d \<in> set (repo_districts repo)" and "t \<in> set (taluka_rows_for repo cfg (fst d))"
    and "h \<in> set (hobli_rows_for repo cfg (fst t))"
    and "v \<in> set (village_rows_for repo cfg (fst h))"
  then have "(fst d, fst t, fst h, fst v, snd d, fst (snd t), fst (snd h), fst (snd v))
               \<in> set (candidate_combos repo cfg)"
    unfolding candidate_combos_mem by (simp add: district_rows_for_def) blast
  then have "combo_key (fst d, fst t, fst h, fst v, snd d, fst (snd t), fst (snd h), fst (snd v))
               \<in> combo_key ` set (candidate_combos repo cfg)"
    by (rule imageI)
  then have "(fst d, fst t, fst h, fst v) \<in> combo_key ` set (candidate_combos repo cfg)"
    by (simp add: combo_key_def)
  then show "(fst d, fst t, fst h, fst v) \<in>
            combo_key ` set (fst (build_location_combinations repo cfg))"
    by (simp add: build_location_combinations_keys)
qed

theorem district_filter_is_optional_witness:
  "truthy (cfg_district_code cfg_taluk_20) \<and>
   fst ` set (fst (build_location_combinations repo_one_district cfg_taluk_20)) \<subseteq> {10} \<and>
   map combo_key (fst (build_location_combinations repo_one_district cfg_taluk_20)) =
     [(10, 20, 30, 40), (10, 20, 30, 41)] \<and>
   (20, ''T'', 10) \<in> set (taluka_rows repo_one_district) \<and>
   (30, ''H'', 20) \<in> set (hobli_rows repo_one_district) \<and>
   (41, ''W'', 30) \<in> set (village_rows repo_one_district) \<and>
   \<not> truthy (cfg_district_code cfg_all) \<and>
   (11, 21, 31, 41) \<in> combo_key ` set (fst (build_location_combinations repo_two_districts cfg_all))"
proof -
  have given: "truthy (cfg_district_code cfg_taluk_20)"
    by (simp add: truthy_def cfg_taluk_20_def)
  have none: "\<not> truthy (cfg_district_code cfg_all)"
    by (simp add: truthy_def cfg_all_def)
  from district_filter_is_optional[of cfg_taluk_20 repo_one_district, THEN conjunct1] given
  have "\<forall>c \<in> set (fst (build_location_combinations repo_one_district cfg_taluk_20)).
          Some (fst c) = cfg_district_code cfg_taluk_20"
    by blast
  then have a: "fst ` set (fst (build_location_combinations repo_one_district cfg_taluk_20)) \<subseteq> {10}"
    by (auto simp: cfg_taluk_20_def)
  have "candidate_combos repo_one_district cfg_taluk_20 =
     [(10, 20, 30, 40, ''D'', ''T'', ''H'', ''V''), (10, 20, 30, 41, ''D'', ''T'', ''H'', ''W'')]"
    by (simp add: candidate_combos_def district_rows_for_def taluka_rows_for_def
        hobli_rows_for_def village_rows_for_def repo_districts_def repo_talukas_def
        repo_hoblis_def repo_villages_def repo_children_def truthy_def
        repo_one_district_def cfg_taluk_20_def cfg_all_def)
  then have full: "fst (build_location_combinations repo_one_district cfg_taluk_20) =
     [(10, 20, 30, 40, ''D'', ''T'', ''H'', ''V''), (10, 20, 30, 41, ''D'', ''T'', ''H'', ''W'')]"
    by (simp add: build_location_combinations_def Let_def combo_key_def)
  then have b: "map combo_key (fst (build_location_combinations repo_one_district cfg_taluk_20)) =
     [(10, 20, 30, 40), (10, 20, 30, 41)]"
    by (simp add: combo_key_def)
  have "(10, 20, 30, 41, ''D'', ''T'', ''H'', ''W'') \<in>
          set (fst (build_location_combinations repo_one_district cfg_taluk_20))"
    unfolding full by simp
  with district_filter_is_optional[of cfg_taluk_20 repo_one_district, THEN conjunct2,
      THEN conjunct1]
  have "case (10::int, 20::int, 30::int, 41::int, ''D'', ''T'', ''H'', ''W'') of
          (d, t, h, v, dn, tn, hn, vn) \<Rightarrow>
        0 < d \<and> (d, dn) \<in> set (district_rows repo_one_district) \<and>
        (t, tn, d) \<in> set (taluka_rows repo_one_district) \<and>
        (\<exists>p. (h, hn, p) \<in> set (hobli_rows repo_one_district) \<and> (t \<noteq> 0 \<longrightarrow> p = t)) \<and>
        (\<exists>q. (v, vn, q) \<in> set (village_rows repo_one_district) \<and> (h \<noteq> 0 \<longrightarrow> q = h))"
    by (rule bspec)
  then have chain: "(20, ''T'', 10) \<in> set (taluka_rows repo_one_district) \<and>
      (30, ''H'', 20) \<in> set (hobli_rows repo_one_district) \<and>
      (41, ''W'', 30) \<in> set (village_rows repo_one_district)"
    by simp
  have rows: "(11, ''E'') \<in> set (repo_districts repo_two_districts)"
    "(21, ''U'', 11) \<in> set (taluka_rows_for repo_two_districts cfg_all (fst (11::int, ''E'')))"
    "(31, ''I'', 21) \<in> set (hobli_rows_for repo_two_districts cfg_all (fst (21::int, ''U'', 11::int)))"
    "(41, ''W'', 31) \<in> set (village_rows_for repo_two_districts cfg_all (fst (31::int, ''I'', 21::int)))"
    by (simp_all add: taluka_rows_for_def hobli_rows_for_def village_rows_for_def
        repo_districts_def repo_talukas_def repo_hoblis_def repo_villages_def
        repo_children_def truthy_def repo_two_districts_def cfg_all_def)
  from district_filter_is_optional[of cfg_all repo_two_districts, THEN conjunct2,
      THEN conjunct2] none
  have "\<forall>d \<in> set (repo_districts repo_two_districts).
        \<forall>t \<in> set (taluka_rows_for repo_two_districts cfg_all (fst d)).
        \<forall>h \<in> set (hobli_rows_for repo_two_districts cfg_all (fst t)).
        \<forall>v \<in> set (village_rows_for repo_two_districts cfg_all (fst h)).
         (fst d, fst t, fst h, fst v) \<in>
            combo_key ` set (fst (build_location_combinations repo_two_districts cfg_all))"
    by blast
  from this[rule_format, OF rows]
  have c: "(11, 21, 31, 41) \<in>
      combo_key ` set (fst (build_location_combinations repo_two_districts cfg_all))"
    by simp
  show ?thesis using given a b chain none c by blast
qed

text \<open>
  A parent code 0 reads the whole table: with a taluka of code 0 under district 10, the
  run filtered to district 10 returns village 41, which the store holds under hobli 31 of
  taluka 21 of district 11.
\<close>

lemma zero_code_taluka_reads_all_hoblis:
  "cfg_district_code cfg_district_10 = Some 10 \<and>
   fst (build_location_combinations repo_zero_taluka cfg_district_10) =
     [(10, 0, 31, 41, ''D'', ''Z'', ''I'', ''W'')] \<and>
   taluka_rows repo_zero_taluka = [(0, ''Z'', 10), (21, ''U'', 11)] \<and>
   hobli_rows repo_zero_taluka = [(31, ''I'', 21)] \<and>
   village_rows repo_zero_taluka = [(41, ''W'', 31)]"
proof -
  have "candidate_combos repo_zero_taluka cfg_district_10 =
     [(10, 0, 31, 41, ''D'', ''Z'', ''I'', ''W'')]"
    by (simp add: candidate_combos_def district_rows_for_def taluka_rows_for_def
        hobli_rows_for_def village_rows_for_def repo_districts_def repo_talukas_def
        repo_hoblis_def repo_villages_def repo_children_def truthy_def
        repo_zero_taluka_def cfg_district_10_def cfg_all_def)
  then show ?thesis
    by (simp add: build_location_combinations_def Let_def combo_key_def cfg_district_10_def
          repo_zero_taluka_def)
qed

section \<open>CAPTCHA reuse in the search bot\<close>








section \<open>Session validity\<close>

lemma is_session_valid_saved:
  assumes "session_file = Some s" and "saved_at s = SavedAt saved_time"
    and "append_token s = Some tok" and "tok \<noteq> []"
  shows "is_session_valid session_file now = (timedelta_seconds (now - saved_time) \<le> 3600)"
  using assms by (auto simp: is_session_valid_def load_session_def Let_def)

text \<open>Within the first day after saving, the check does compare the age with one hour.\<close>

lemma is_session_valid_first_day:
  assumes "session_file = Some s" and "saved_at s = SavedAt saved_time"
    and "append_token s = Some tok" and "tok \<noteq> []"
    and "0 \<le> now - saved_time" and "now - saved_time < 86400 * 1000000"
  shows "is_session_valid session_file now = (total_seconds (now - saved_time) \<le> 3600)"
proof -
  have "0 \<le> (now - saved_time) div 1000000" using assms(5) by simp
  moreover have "(now - saved_time) div 1000000 < 86400" using assms(6) by simp
  ultimately have "timedelta_seconds (now - saved_time) = total_seconds (now - saved_time)"
    by (simp add: timedelta_seconds_def total_seconds_def)
  with is_session_valid_saved[OF assms(1-4)] show ?thesis by simp
qed

text \<open>
  Claim C3, the failing input. The session holds a token and was saved one day and ten
  minutes before \<^verbatim>\<open>now\<close>. Its age is 87000 seconds, far beyond the hour, but the
  \<^verbatim>\<open>seconds\<close> attribute of the difference is 600, and \<^verbatim>\<open>is_session_valid\<close> returns
  \<^verbatim>\<open>True\<close>.
\<close>

theorem is_session_valid_day_old_session:
  "total_seconds (87000 * 1000000 - 0) = 87000 \<and>
   timedelta_seconds (87000 * 1000000 - 0) = 600 \<and>
   is_session_valid (Some session_saved_at_zero) (87000 * 1000000) = True"
  by (simp add: is_session_valid_def load_session_def session_saved_at_zero_def Let_def
        timedelta_seconds_def total_seconds_def)

section \<open>Per-target errors in \<^verbatim>\<open>batch_search\<close>\<close>





lemma batch_step_raises:
  assumes "search_ec token vc party env = (Inl e, lines)"
  shows "batch_step token party delay tot idx (vc, env) st =
           (if idx < tot
            then st\<lparr>bs_log := bs_log st @ [LogProcessing idx tot vc] @ lines @ [LogError e],
                    bs_slept := bs_slept st @ [delay]\<rparr>
            else st\<lparr>bs_log := bs_log st @ [LogProcessing idx tot vc] @ lines @ [LogError e]\<rparr>)"
  using assms by (simp add: batch_step_def Let_def)




text \<open>
  The other exceptions of an iteration are caught in the same way: the \<^verbatim>\<open>TypeError\<close> of a
  response whose \<^verbatim>\<open>data\<close> is \<^verbatim>\<open>null\<close>, and the exceptions of the incremental save,
  which leave the rows in \<^verbatim>\<open>all_results\<close>.
\<close>

lemma batch_step_null_data:
  assumes "token \<noteq> None" and "token \<noteq> Some []" and "generate_captcha env = Json challenge"
    and "solve_captcha env = Json solved" and "new_ec_search env = Json result"
    and "responseCode result = 1000" and "response_data result = Null"
  shows "batch_step token party delay tot idx (vc, env) st =
           (if idx < tot
            then st\<lparr>bs_log := bs_log st @ [LogProcessing idx tot vc] @
                      [LogGeneratingCaptcha vc, LogSolvingCaptcha, LogSearching party vc] @
                      [LogError ''object of type 'NoneType' has no len()''],
                    bs_slept := bs_slept st @ [delay]\<rparr>
            else st\<lparr>bs_log := bs_log st @ [LogProcessing idx tot vc] @
                      [LogGeneratingCaptcha vc, LogSolvingCaptcha, LogSearching party vc] @
                      [LogError ''object of type 'NoneType' has no len()'']\<rparr>)"
proof -
  have "search_ec token vc party env =
          (Inl ''object of type 'NoneType' has no len()'',
           [LogGeneratingCaptcha vc, LogSolvingCaptcha, LogSearching party vc])"
    using assms by (simp add: search_ec_def)
  from batch_step_raises[OF this] show ?thesis .
qed

lemma batch_step_save_fails:
  assumes "search_ec token vc party env = (Inr results, lines)"
    and "append_to_csv (bs_output_file st)
           (map (\<lambda>r. dict_set r ''_search_village_code'' vc) results) = Inl (e, file)"
  shows "batch_step token party delay tot idx (vc, env) st =
           (if idx < tot
            then st\<lparr>bs_log := bs_log st @ [LogProcessing idx tot vc] @ lines @ [LogSaveError e],
                    bs_all_results := bs_all_results st @
                      map (\<lambda>r. dict_set r ''_search_village_code'' vc) results,
                    bs_output_file := file, bs_slept := bs_slept st @ [delay]\<rparr>
            else st\<lparr>bs_log := bs_log st @ [LogProcessing idx tot vc] @ lines @ [LogSaveError e],
                    bs_all_results := bs_all_results st @
                      map (\<lambda>r. dict_set r ''_search_village_code'' vc) results,
                    bs_output_file := file\<rparr>)"
  using assms by (simp add: batch_step_def Let_def)

lemma append_to_csv_unopenable:
  "records \<noteq> [] \<Longrightarrow> append_to_csv Unopenable records = Inl (NoSuchFile, Unopenable)"
  by (cases records) (simp_all add: append_to_csv_def)

lemma append_to_csv_extra_field:
  "append_to_csv Absent [[(''a'', ''1'')], [(''a'', ''2''), (''b'', ''3'')]] =
     Inl (FieldsNotInFieldnames [''b''], Lines [[''a''], [''1'']])"
  by (simp add: append_to_csv_def csv_row_fits_def csv_cells_def wrong_fields_def Let_def)

section \<open>Session expiry in the smart search run\<close>

lemma search_loop_expired [simp]:
  "rs_session_expired st \<Longrightarrow> search_loop tot idx targets st = Inr st"
  by (cases targets) auto








text \<open>In \<^verbatim>\<open>main\<close> nothing catches the exceptions of the incremental save: they end the run.\<close>

lemma search_loop_save_fails:
  assumes "\<not> rs_session_expired st"
    and "search_village obs (snd village) = (True, results, error)"
    and "error \<noteq> ''SESSION_EXPIRED''"
    and "append_to_csv (rs_output_file st)
           (map (\<lambda>r. dict_set r ''_village'' (snd village)) results) = Inl (e, file)"
  shows "search_loop tot idx ((village, obs) # rest) st =
           Inl (st\<lparr>rs_status := StatusSearching (snd village) (idx + 1) tot,
                    rs_searches := rs_searches st + 1,
                    rs_all_results := rs_all_results st @
                      map (\<lambda>r. dict_set r ''_village'' (snd village)) results,
                    rs_output_file := file\<rparr>)"
  using assms by (simp add: Let_def)

end
